theory Spec2Isabelle
  imports Main
begin

section \<open>JavaScript values\<close>

text \<open>
  A property that upstream JSON may or may not carry is a \<open>string option\<close>:
  \<open>None\<close> reads as \<open>undefined\<close>. A string is falsy exactly when it is empty.
\<close>

definition truthy :: "string option \<Rightarrow> bool" where
  "truthy v = (case v of None \<Rightarrow> False | Some s \<Rightarrow> s \<noteq> [])"

text \<open>\<open>a || b\<close> where \<open>b\<close> may itself be undefined.\<close>

definition js_or :: "string option \<Rightarrow> string option \<Rightarrow> string option" where
  "js_or a b = (if truthy a then a else b)"

text \<open>\<open>a || b\<close> where \<open>b\<close> is a string.\<close>

definition js_or_str :: "string option \<Rightarrow> string \<Rightarrow> string" where
  "js_or_str a b = (case a of None \<Rightarrow> b | Some s \<Rightarrow> if s = [] then b else s)"

text \<open>The string a field holds once the code has checked it truthy.\<close>

definition str_of :: "string option \<Rightarrow> string" where
  "str_of v = (case v of None \<Rightarrow> [] | Some s \<Rightarrow> s)"

datatype error = TypeError

section \<open>Data model: what the upstream API sends\<close>

record endpoint =
  iataCode :: string
  terminal :: "string option"
  at :: string
  cityName :: "string option"
  airportName :: "string option"

record segment =
  seg_id :: string
  carrierCode :: string
  number :: string
  departure :: endpoint
  arrival :: endpoint
  airlineName :: "string option"
  flightDuration :: "string option"

record itinerary =
  segments :: "segment list option"

record price =
  price_total :: string
  totalTaxes :: "string option"

record flight_offer =
  offer_id :: string
  offer_price :: price
  itineraries :: "itinerary list option"

record address =
  addr_cityName :: "string option"

record location =
  loc_iataCode :: string
  loc_name :: "string option"
  address :: "address option"

record airline_data =
  al_iataCode :: string
  commonName :: "string option"
  officialName :: "string option"

record airline =
  code :: string
  name :: "string option"

record traveler_name =
  firstName :: "string option"
  lastName :: string

record phone =
  deviceType :: string
  countryCallingCode :: string
  phone_number :: string

record contact =
  emailAddress :: string
  phones :: "phone list"

record traveler =
  traveler_id :: string
  dateOfBirth :: string
  traveler_name :: traveler_name
  gender :: string
  contact :: contact

record booking_payload =
  payload_type :: string
  flightOffers :: "flight_offer list"
  travelers :: "traveler list"

record booking =
  booking_flightOffers :: "flight_offer list option"

section \<open>The upstream API\<close>

text \<open>
  Every \<open>axios\<close> call of the source is one \<open>request\<close>. The answer may depend on
  everything asked before (the history), so two lookups of one code need not
  agree. \<open>Rejected\<close> is a promise that rejects (network error, non-2xx
  status). An answer of another constructor than the caller reads is a body
  without the data the caller expects: reading it throws a \<open>TypeError\<close>.
\<close>

datatype request =
    PostToken
  | GetLocations string string
  | GetAirlines string
  | GetFlightOffers "string option" "string option" "string option"
  | PostPricing flight_offer
  | PostFlightOrder booking_payload
  | GetFlightOrder string

datatype response =
    Rejected
  | TokenData "string option"
  | LocationData "location list"
  | AirlineData "airline_data list"
  | OfferData "flight_offer list"
  | PricingData "flight_offer list"
  | OrderCreated "string option"
  | OrderData booking

type_synonym upstream = "request list \<Rightarrow> request \<Rightarrow> response"

definition axios :: "upstream \<Rightarrow> request \<Rightarrow> request list \<Rightarrow> response \<times> request list" where
  "axios up rq tr = (up tr rq, tr @ [rq])"

section \<open>Credential manager\<close>

text \<open>\<open>authenticateAmadeus\<close> stores \<open>response.data.access_token\<close> in the
  process-wide \<open>accessToken\<close> (initially the empty string), and leaves it as it
  is when the exchange is rejected. The middleware registered ahead of every
  route calls it when no token is held.\<close>

definition authenticateAmadeus :: "upstream \<Rightarrow> string option \<Rightarrow> request list \<Rightarrow> string option \<times> request list" where
  "authenticateAmadeus up accessToken tr =
     (case axios up PostToken tr of
        (TokenData access_token, tr') \<Rightarrow> (access_token, tr')
      | (Rejected, tr') \<Rightarrow> (accessToken, tr')
      | (_, tr') \<Rightarrow> (None, tr'))"

definition ensure_authenticated :: "upstream \<Rightarrow> string option \<Rightarrow> request list \<Rightarrow> string option \<times> request list" where
  "ensure_authenticated up accessToken tr =
     (if \<not> truthy accessToken then authenticateAmadeus up accessToken tr else (accessToken, tr))"

section \<open>Location resolver\<close>

text \<open>\<open>getRelatedAirportCodes\<close>: \<open>response.data.data.map(airport => airport.iataCode)\<close>,
  \<open>[cityCode]\<close> in the \<open>catch\<close>.\<close>

definition getRelatedAirportCodes :: "upstream \<Rightarrow> string \<Rightarrow> request list \<Rightarrow> string list \<times> request list" where
  "getRelatedAirportCodes up cityCode tr =
     (case axios up (GetLocations cityCode ''AIRPORT'') tr of
        (LocationData ls, tr') \<Rightarrow> (map loc_iataCode ls, tr')
      | (_, tr') \<Rightarrow> ([cityCode], tr'))"

record city_airport =
  city :: string
  airport :: string

text \<open>\<open>getCityAndAirportName\<close>: \<open>location = response.data.data[0]\<close>; reading
  \<open>location.address\<close> of an absent first match, or \<open>.cityName\<close> of an absent
  address, throws inside the \<open>try\<close>.\<close>

definition getCityAndAirportName :: "upstream \<Rightarrow> string \<Rightarrow> request list \<Rightarrow> city_airport \<times> request list" where
  "getCityAndAirportName up code0 tr =
     (case axios up (GetLocations code0 ''AIRPORT,CITY'') tr of
        (LocationData (location # _), tr') \<Rightarrow>
          (case address location of
             Some a \<Rightarrow>
               (\<lparr>city = js_or_str (addr_cityName a) code0,
                 airport = js_or_str (loc_name location) ''Unknown Airport''\<rparr>, tr')
           | None \<Rightarrow> (\<lparr>city = code0, airport = ''Unknown Airport''\<rparr>, tr'))
      | (_, tr') \<Rightarrow> (\<lparr>city = code0, airport = ''Unknown Airport''\<rparr>, tr'))"

section \<open>Airline resolver\<close>

text \<open>\<open>[...new Set(xs)]\<close>: a JavaScript \<open>Set\<close> keeps insertion order and ignores
  a value it already holds.\<close>

definition set_add :: "'a list \<Rightarrow> 'a \<Rightarrow> 'a list" where
  "set_add s x = (if x \<in> set s then s else s @ [x])"

definition new_Set :: "'a list \<Rightarrow> 'a list" where
  "new_Set xs = foldl set_add [] xs"

text \<open>\<open>flight.itineraries[0].segments[0]\<close>: indexing an empty array gives
  \<open>undefined\<close>, and reading a property of \<open>undefined\<close> throws.\<close>

definition first_segment :: "flight_offer \<Rightarrow> error + segment" where
  "first_segment flight =
     (case itineraries flight of
        Some (it # _) \<Rightarrow>
          (case segments it of Some (s # _) \<Rightarrow> Inr s | _ \<Rightarrow> Inl TypeError)
      | _ \<Rightarrow> Inl TypeError)"

text \<open>\<open>Array.prototype.map\<close> and \<open>filter\<close> with a callback that may throw: the first
  throw ends the whole call.\<close>

fun map_throw :: "('a \<Rightarrow> error + 'b) \<Rightarrow> 'a list \<Rightarrow> error + 'b list" where
  "map_throw f [] = Inr []"
| "map_throw f (x # xs) =
     (case f x of
        Inl e \<Rightarrow> Inl e
      | Inr y \<Rightarrow> (case map_throw f xs of Inl e \<Rightarrow> Inl e | Inr ys \<Rightarrow> Inr (y # ys)))"

fun filter_throw :: "('a \<Rightarrow> error + bool) \<Rightarrow> 'a list \<Rightarrow> error + 'a list" where
  "filter_throw f [] = Inr []"
| "filter_throw f (x # xs) =
     (case f x of
        Inl e \<Rightarrow> Inl e
      | Inr b \<Rightarrow>
          (case filter_throw f xs of
             Inl e \<Rightarrow> Inl e
           | Inr ys \<Rightarrow> Inr (if b then x # ys else ys)))"

definition first_carrierCode :: "flight_offer \<Rightarrow> error + string" where
  "first_carrierCode flight =
     (case first_segment flight of Inl e \<Rightarrow> Inl e | Inr s \<Rightarrow> Inr (carrierCode s))"

definition airline_entry :: "airline_data \<Rightarrow> airline" where
  "airline_entry airlineData =
     \<lparr>code = al_iataCode airlineData,
      name = js_or (commonName airlineData) (officialName airlineData)\<rparr>"

text \<open>The body of the \<open>try\<close> in the loop over \<open>uniqueCarrierCodes\<close>:
  \<open>response.data.data[0]\<close> of an empty list is \<open>undefined\<close>, so reading its
  \<open>iataCode\<close> throws; \<open>None\<close> is the \<open>catch\<close>, where nothing is pushed.\<close>

definition try_airline :: "response \<Rightarrow> airline option" where
  "try_airline r =
     (case r of
        AirlineData (airlineData # _) \<Rightarrow> Some (airline_entry airlineData)
      | _ \<Rightarrow> None)"

fun airlines_loop :: "upstream \<Rightarrow> string list \<Rightarrow> airline list \<Rightarrow> request list \<Rightarrow> airline list \<times> request list" where
  "airlines_loop up [] airlines tr = (airlines, tr)"
| "airlines_loop up (code0 # codes) airlines tr =
     (case axios up (GetAirlines code0) tr of
        (r, tr') \<Rightarrow>
          (case try_airline r of
             Some a \<Rightarrow> airlines_loop up codes (airlines @ [a]) tr'
           | None \<Rightarrow> airlines_loop up codes airlines tr'))"

definition uniqueCarrierCodes :: "flight_offer list \<Rightarrow> error + string list" where
  "uniqueCarrierCodes flights =
     (case map_throw first_carrierCode flights of
        Inl e \<Rightarrow> Inl e
      | Inr codes \<Rightarrow> Inr (new_Set codes))"

definition getAirlinesFromFlightOffers :: "upstream \<Rightarrow> flight_offer list \<Rightarrow> request list \<Rightarrow> (error + airline list) \<times> request list" where
  "getAirlinesFromFlightOffers up flights tr =
     (case uniqueCarrierCodes flights of
        Inl e \<Rightarrow> (Inl e, tr)
      | Inr codes \<Rightarrow> (case airlines_loop up codes [] tr of (airlines, tr') \<Rightarrow> (Inr airlines, tr')))"

section \<open>Flight search filter\<close>

text \<open>The callback of \<open>flightData.data.filter\<close> in \<open>/flight-offers\<close>. \<open>originCode\<close>
  comes from the query string and may be absent.\<close>

definition offer_matches :: "string option \<Rightarrow> string list \<Rightarrow> flight_offer \<Rightarrow> error + bool" where
  "offer_matches originCode destinationCodes flight =
     (case first_segment flight of
        Inl e \<Rightarrow> Inl e
      | Inr s \<Rightarrow>
          (let departureCode = iataCode (departure s);
               arrivalCode = iataCode (arrival s)
           in Inr (Some departureCode = originCode \<and> arrivalCode \<in> set destinationCodes)))"

definition filteredFlights :: "string option \<Rightarrow> string list \<Rightarrow> flight_offer list \<Rightarrow> error + flight_offer list" where
  "filteredFlights originCode destinationCodes flightData =
     filter_throw (offer_matches originCode destinationCodes) flightData"

section \<open>Flight duration\<close>

text \<open>
  A JavaScript number that is an integer or \<open>NaN\<close> is an \<open>int option\<close>. A \<open>Date\<close> is
  its time value in milliseconds, \<open>None\<close> for an invalid date. The source
  computes in doubles; on time values of calendar dates the difference is
  exact, and \<open>Math.floor\<close> of the quotients and \<open>%\<close> agree with the integer
  operations written here.
\<close>

fun nat_str :: "nat \<Rightarrow> string" where
  "nat_str n = (if n < 10 then [char_of (48 + n)] else nat_str (n div 10) @ [char_of (48 + n mod 10)])"

definition int_str :: "int \<Rightarrow> string" where
  "int_str i = (if i < 0 then CHR ''-'' # nat_str (nat (- i)) else nat_str (nat i))"

definition num_str :: "int option \<Rightarrow> string" where
  "num_str v = (case v of None \<Rightarrow> ''NaN'' | Some i \<Rightarrow> int_str i)"

text \<open>\<open>a % b\<close> on integers: the remainder takes the sign of the dividend.\<close>

definition js_rem :: "int \<Rightarrow> int \<Rightarrow> int" where
  "js_rem a b = (if a < 0 then - ((- a) mod \<bar>b\<bar>) else a mod \<bar>b\<bar>)"

definition flightDuration_of :: "(string \<Rightarrow> int option) \<Rightarrow> string \<Rightarrow> string \<Rightarrow> string" where
  "flightDuration_of Date dep_at arr_at =
     (let departureTime = Date dep_at;
          arrivalTime = Date arr_at;
          duration =
            (case (arrivalTime, departureTime) of
               (Some a, Some d) \<Rightarrow> Some ((a - d) div (1000 * 60))
             | _ \<Rightarrow> None);
          hours = map_option (\<lambda>d. d div 60) duration;
          minutes = map_option (\<lambda>d. js_rem d 60) duration
      in num_str hours @ ''h '' @ num_str minutes @ ''m'')"

text \<open>
  The runtime's \<open>Date\<close> constructor on the date-time forms \<open>YYYY-MM-DDTHH:mm\<close> and
  \<open>YYYY-MM-DDTHH:mm:ss\<close> with a valid calendar date and time of day, read as
  local time in a zone of constant offset (taken as zero: a constant offset
  cancels in a difference). It is not the runtime's parser elsewhere: the
  runtime also reads dates past the end of a month, the hour 24, offsets,
  milliseconds and other forms, and its local time may change offset between
  two dates. The enrichment therefore takes the constructor as a parameter, and
  this function stands for it only at the timestamps evaluated below.
\<close>

definition digit_val :: "char \<Rightarrow> nat option" where
  "digit_val c = (let n = (of_char c :: nat) in if 48 \<le> n \<and> n \<le> 57 then Some (n - 48) else None)"

fun digits_val :: "nat \<Rightarrow> string \<Rightarrow> nat option" where
  "digits_val acc [] = Some acc"
| "digits_val acc (c # cs) =
     (case digit_val c of None \<Rightarrow> None | Some d \<Rightarrow> digits_val (10 * acc + d) cs)"

definition days_in_month :: "nat \<Rightarrow> nat \<Rightarrow> nat" where
  "days_in_month y m =
     (if m = 2 then (if (y mod 4 = 0 \<and> y mod 100 \<noteq> 0) \<or> y mod 400 = 0 then 29 else 28)
      else if m = 4 \<or> m = 6 \<or> m = 9 \<or> m = 11 then 30 else 31)"

definition days_from_civil :: "nat \<Rightarrow> nat \<Rightarrow> nat \<Rightarrow> int" where
  "days_from_civil y m d =
     (let y' = (if m \<le> 2 then int y - 1 else int y);
          era = y' div 400;
          yoe = y' - era * 400;
          mp = (int m + 9) mod 12;
          doy = (153 * mp + 2) div 5 + int d - 1;
          doe = yoe * 365 + yoe div 4 - yoe div 100 + doy
      in era * 146097 + doe - 719468)"

definition Date_iso :: "string \<Rightarrow> int option" where
  "Date_iso s =
     (if (length s = 16 \<or> (length s = 19 \<and> s ! 16 = CHR '':''))
         \<and> s ! 4 = CHR ''-'' \<and> s ! 7 = CHR ''-'' \<and> s ! 10 = CHR ''T'' \<and> s ! 13 = CHR '':''
      then
        (case (digits_val 0 (take 4 s), digits_val 0 (take 2 (drop 5 s)),
               digits_val 0 (take 2 (drop 8 s)), digits_val 0 (take 2 (drop 11 s)),
               digits_val 0 (take 2 (drop 14 s)), digits_val 0 (take 2 (drop 17 s))) of
           (Some y, Some mo, Some d, Some h, Some mi, Some sec) \<Rightarrow>
             (if 1 \<le> mo \<and> mo \<le> 12 \<and> 1 \<le> d \<and> d \<le> days_in_month y mo
                 \<and> h < 24 \<and> mi < 60 \<and> sec < 60
              then Some (((days_from_civil y mo d * 24 + int h) * 60 + int mi) * 60000
                         + int sec * 1000)
              else None)
         | _ \<Rightarrow> None)
      else None)"

section \<open>Enrichment in \<open>/flight-details\<close>\<close>

definition enrich_endpoint :: "city_airport \<Rightarrow> endpoint \<Rightarrow> endpoint" where
  "enrich_endpoint loc e =
     e\<lparr>cityName := Some (city loc),
       airportName := Some (airport loc),
       terminal := Some (js_or_str (terminal e) ''N/A'')\<rparr>"

text \<open>\<open>airlines.find(a => a.code === segment.carrierCode)\<close>, then
  \<open>airline ? airline.name : segment.carrierCode\<close>.\<close>

definition airlineName_of :: "airline list \<Rightarrow> string \<Rightarrow> string option" where
  "airlineName_of airlines cc =
     (case find (\<lambda>a. code a = cc) airlines of
        Some a \<Rightarrow> name a
      | None \<Rightarrow> Some cc)"

definition enrich_segment :: "(string \<Rightarrow> int option) \<Rightarrow> upstream \<Rightarrow> airline list \<Rightarrow> segment \<Rightarrow> request list \<Rightarrow> segment \<times> request list" where
  "enrich_segment Date up airlines seg tr =
     (case getCityAndAirportName up (iataCode (departure seg)) tr of
        (departureLocation, tr1) \<Rightarrow>
          (case getCityAndAirportName up (iataCode (arrival seg)) tr1 of
             (arrivalLocation, tr2) \<Rightarrow>
               (seg\<lparr>departure := enrich_endpoint departureLocation (departure seg),
                    arrival := enrich_endpoint arrivalLocation (arrival seg),
                    airlineName := airlineName_of airlines (carrierCode seg),
                    flightDuration :=
                      Some (flightDuration_of Date (at (departure seg)) (at (arrival seg)))\<rparr>,
                tr2)))"

fun enrich_segments :: "(string \<Rightarrow> int option) \<Rightarrow> upstream \<Rightarrow> airline list \<Rightarrow> segment list \<Rightarrow> request list \<Rightarrow> segment list \<times> request list" where
  "enrich_segments Date up airlines [] tr = ([], tr)"
| "enrich_segments Date up airlines (seg # segs) tr =
     (case enrich_segment Date up airlines seg tr of
        (seg', tr1) \<Rightarrow>
          (case enrich_segments Date up airlines segs tr1 of
             (segs', tr2) \<Rightarrow> (seg' # segs', tr2)))"

text \<open>\<open>for (let segment of itinerary.segments)\<close> throws when the itinerary has no
  \<open>segments\<close> array; the itineraries before it are enriched by then.\<close>

fun enrich_itineraries :: "(string \<Rightarrow> int option) \<Rightarrow> upstream \<Rightarrow> airline list \<Rightarrow> itinerary list \<Rightarrow> request list \<Rightarrow> (error + itinerary list) \<times> request list" where
  "enrich_itineraries Date up airlines [] tr = (Inr [], tr)"
| "enrich_itineraries Date up airlines (itin # itins) tr =
     (case segments itin of
        None \<Rightarrow> (Inl TypeError, tr)
      | Some segs \<Rightarrow>
          (case enrich_segments Date up airlines segs tr of
             (segs', tr1) \<Rightarrow>
               (case enrich_itineraries Date up airlines itins tr1 of
                  (Inl e, tr2) \<Rightarrow> (Inl e, tr2)
                | (Inr itins', tr2) \<Rightarrow> (Inr (itin\<lparr>segments := Some segs'\<rparr> # itins'), tr2))))"

section \<open>The \<open>/flight-details\<close> handler\<close>

datatype 'a reply = Status nat string | Render 'a

record flight_query =
  q_offerId :: "string option"
  q_originCode :: "string option"
  q_destinationCode :: "string option"
  q_departureDate :: "string option"

record flight_details_view =
  flight :: flight_offer
  totalPrice :: string
  totalTax :: string

text \<open>The part of the handler after the pricing answer is bound to
  \<open>flightDetails\<close>: the airline names are fetched first, then the priced offer
  is read and enriched. \<open>priced\<close> is \<open>None\<close> for a pricing body without
  \<open>data.flightOffers\<close>.\<close>

definition enrich_priced :: "(string \<Rightarrow> int option) \<Rightarrow> upstream \<Rightarrow> flight_offer \<Rightarrow> flight_offer list option \<Rightarrow> request list \<Rightarrow> flight_details_view reply \<times> request list" where
  "enrich_priced Date up flightOffer priced tr =
     (case getAirlinesFromFlightOffers up [flightOffer] tr of
        (Inl e, tr1) \<Rightarrow> (Status 500 ''Error fetching flight details'', tr1)
      | (Inr airlines, tr1) \<Rightarrow>
          (case priced of
             Some (offer0 # _) \<Rightarrow>
               (case itineraries offer0 of
                  None \<Rightarrow> (Status 500 ''Error fetching flight details'', tr1)
                | Some itins \<Rightarrow>
                    (case enrich_itineraries Date up airlines itins tr1 of
                       (Inl e, tr2) \<Rightarrow> (Status 500 ''Error fetching flight details'', tr2)
                     | (Inr itins', tr2) \<Rightarrow>
                         (Render
                            \<lparr>flight = offer0\<lparr>itineraries := Some itins'\<rparr>,
                             totalPrice = price_total (offer_price offer0),
                             totalTax = js_or_str (totalTaxes (offer_price offer0)) ''N/A''\<rparr>,
                          tr2)))
           | _ \<Rightarrow> (Status 500 ''Error fetching flight details'', tr1)))"

definition flight_details :: "(string \<Rightarrow> int option) \<Rightarrow> upstream \<Rightarrow> flight_query \<Rightarrow> request list \<Rightarrow> flight_details_view reply \<times> request list" where
  "flight_details Date up q tr =
     (if \<not> truthy (q_offerId q) then (Status 400 ''Flight offer ID is required'', tr)
      else
        (case axios up (GetFlightOffers (q_originCode q) (q_destinationCode q) (q_departureDate q)) tr of
           (OfferData offers, tr1) \<Rightarrow>
             (case find (\<lambda>offer. Some (offer_id offer) = q_offerId q) offers of
                None \<Rightarrow> (Status 404 ''Flight offer not found'', tr1)
              | Some flightOffer \<Rightarrow>
                  (case axios up (PostPricing flightOffer) tr1 of
                     (Rejected, tr2) \<Rightarrow> (Status 500 ''Error fetching flight details'', tr2)
                   | (PricingData priced, tr2) \<Rightarrow> enrich_priced Date up flightOffer (Some priced) tr2
                   | (_, tr2) \<Rightarrow> enrich_priced Date up flightOffer None tr2))
         | (_, tr1) \<Rightarrow> (Status 500 ''Error fetching flight details'', tr1)))"

section \<open>Segment reconstruction in \<open>/booked-flight\<close>\<close>

text \<open>The object literals \<open>{cityName, airportName, iataCode, at}\<close>: no other
  property of the upstream endpoint is copied.\<close>

definition rebuild_endpoint :: "city_airport \<Rightarrow> endpoint \<Rightarrow> endpoint" where
  "rebuild_endpoint info e =
     \<lparr>iataCode = iataCode e, terminal = None, at = at e,
      cityName = Some (city info), airportName = Some (airport info)\<rparr>"

text \<open>\<open>Promise.all\<close> of the two lookups: both requests are issued at once, the
  departure's first.\<close>

definition booked_segment :: "upstream \<Rightarrow> segment \<Rightarrow> request list \<Rightarrow> segment \<times> request list" where
  "booked_segment up seg tr =
     (case getCityAndAirportName up (iataCode (departure seg)) tr of
        (departureInfo, tr1) \<Rightarrow>
          (case getCityAndAirportName up (iataCode (arrival seg)) tr1 of
             (arrivalInfo, tr2) \<Rightarrow>
               (seg\<lparr>departure := rebuild_endpoint departureInfo (departure seg),
                    arrival := rebuild_endpoint arrivalInfo (arrival seg)\<rparr>,
                tr2)))"

text \<open>The three nested loops push onto the one array \<open>segments\<close>, here the
  accumulator \<open>acc\<close>. An offer without an itineraries array, or an itinerary
  without a segments array, is skipped.\<close>

fun booked_segments :: "upstream \<Rightarrow> segment list \<Rightarrow> segment list \<Rightarrow> request list \<Rightarrow> segment list \<times> request list" where
  "booked_segments up [] acc tr = (acc, tr)"
| "booked_segments up (seg # segs) acc tr =
     (case booked_segment up seg tr of
        (seg', tr1) \<Rightarrow> booked_segments up segs (acc @ [seg']) tr1)"

fun booked_itineraries :: "upstream \<Rightarrow> itinerary list \<Rightarrow> segment list \<Rightarrow> request list \<Rightarrow> segment list \<times> request list" where
  "booked_itineraries up [] acc tr = (acc, tr)"
| "booked_itineraries up (itin # itins) acc tr =
     (case segments itin of
        None \<Rightarrow> booked_itineraries up itins acc tr
      | Some segs \<Rightarrow>
          (case booked_segments up segs acc tr of
             (acc', tr1) \<Rightarrow> booked_itineraries up itins acc' tr1))"

fun booked_offers :: "upstream \<Rightarrow> flight_offer list \<Rightarrow> segment list \<Rightarrow> request list \<Rightarrow> segment list \<times> request list" where
  "booked_offers up [] acc tr = (acc, tr)"
| "booked_offers up (offer # offers) acc tr =
     (case itineraries offer of
        None \<Rightarrow> booked_offers up offers acc tr
      | Some itins \<Rightarrow>
          (case booked_itineraries up itins acc tr of
             (acc', tr1) \<Rightarrow> booked_offers up offers acc' tr1))"

record traveler_info =
  info_name :: "string option"
  info_email :: "string option"
  info_phone :: "string option"
  info_dob :: "string option"
  info_gender :: "string option"

record booked_query =
  q_travelerInfo :: traveler_info
  q_bookingId :: "string option"

record booked_view =
  travelerInfo :: traveler_info
  bookingDetails :: booking
  view_segments :: "segment list"

definition booked_flight :: "upstream \<Rightarrow> booked_query \<Rightarrow> request list \<Rightarrow> booked_view reply \<times> request list" where
  "booked_flight up q tr =
     (if \<not> truthy (q_bookingId q) then (Status 400 ''Missing booking ID'', tr)
      else
        (case axios up (GetFlightOrder (str_of (q_bookingId q))) tr of
           (OrderData bookingDetails0, tr1) \<Rightarrow>
             (case booking_flightOffers bookingDetails0 of
                None \<Rightarrow>
                  (Render \<lparr>travelerInfo = q_travelerInfo q, bookingDetails = bookingDetails0,
                           view_segments = []\<rparr>, tr1)
              | Some offers \<Rightarrow>
                  (case booked_offers up offers [] tr1 of
                     (segs, tr2) \<Rightarrow>
                       (Render \<lparr>travelerInfo = q_travelerInfo q, bookingDetails = bookingDetails0,
                                view_segments = segs\<rparr>, tr2)))
         | (_, tr1) \<Rightarrow> (Status 500 ''Error fetching booking details'', tr1)))"

section \<open>The \<open>/confirm-booking\<close> handler\<close>

text \<open>The handler takes the runtime's \<open>String.prototype.toUpperCase\<close> as the
  parameter \<open>toUpperCase\<close>, as the enrichment takes \<open>Date\<close>.\<close>

text \<open>\<open>s.split(sep)\<close> for a one-character separator: every occurrence cuts, so
  the result is never empty.\<close>

fun js_split :: "char \<Rightarrow> string \<Rightarrow> string list" where
  "js_split sep [] = [[]]"
| "js_split sep (c # cs) =
     (if c = sep then [] # js_split sep cs
      else (case js_split sep cs of
              w # ws \<Rightarrow> (c # w) # ws
            | [] \<Rightarrow> [[c]]))"

text \<open>\<open>xs[i]\<close>: \<open>undefined\<close> out of range.\<close>

definition js_index :: "'a list \<Rightarrow> nat \<Rightarrow> 'a option" where
  "js_index xs i = (if i < length xs then Some (xs ! i) else None)"

text \<open>The runtime's \<open>toUpperCase\<close> on strings of ASCII characters only: it maps
  the letters a to z to A to Z. On other characters the runtime's method does
  more (it follows Unicode), so the handler below takes the method as a
  parameter and this function stands for it on ASCII input alone.\<close>

definition upper_char :: "char \<Rightarrow> char" where
  "upper_char c = (let n = (of_char c :: nat) in if 97 \<le> n \<and> n \<le> 122 then char_of (n - 32) else c)"

definition toUpperCase_ascii :: "string \<Rightarrow> string" where
  "toUpperCase_ascii s = map upper_char s"

record booking_body =
  travelerName :: "string option"
  travelerEmail :: "string option"
  travelerPhone :: "string option"
  travelerDOB :: "string option"
  travelerGender :: "string option"
  offerId :: "string option"
  originCode :: "string option"
  destinationCode :: "string option"
  departureDate :: "string option"

definition missing_required :: "booking_body \<Rightarrow> bool" where
  "missing_required body =
     (\<not> truthy (travelerName body) \<or> \<not> truthy (travelerEmail body)
      \<or> \<not> truthy (travelerPhone body) \<or> \<not> truthy (travelerDOB body)
      \<or> \<not> truthy (travelerGender body) \<or> \<not> truthy (offerId body)
      \<or> \<not> truthy (originCode body) \<or> \<not> truthy (destinationCode body)
      \<or> \<not> truthy (departureDate body))"

definition bookingPayload :: "(string \<Rightarrow> string) \<Rightarrow> flight_offer \<Rightarrow> booking_body \<Rightarrow> booking_payload" where
  "bookingPayload toUpperCase flightOffer body =
     \<lparr>payload_type = ''flight-order'',
      flightOffers = [flightOffer],
      travelers =
        [\<lparr>traveler_id = ''1'',
          dateOfBirth = str_of (travelerDOB body),
          traveler_name =
            \<lparr>firstName = js_index (js_split CHR '' '' (str_of (travelerName body))) 0,
             lastName = js_or_str (js_index (js_split CHR '' '' (str_of (travelerName body))) 1) []\<rparr>,
          gender = toUpperCase (str_of (travelerGender body)),
          contact =
            \<lparr>emailAddress = str_of (travelerEmail body),
             phones =
               [\<lparr>deviceType = ''MOBILE'', countryCallingCode = ''91'',
                 phone_number = str_of (travelerPhone body)\<rparr>]\<rparr>\<rparr>]\<rparr>"

text \<open>The redirect URL, as the values of its query parameters before
  \<open>encodeURIComponent\<close>.\<close>

record redirect =
  redirect_name :: string
  redirect_email :: string
  redirect_phone :: string
  redirect_dob :: string
  redirect_gender :: string
  redirect_bookingId :: string

definition confirm_booking :: "(string \<Rightarrow> string) \<Rightarrow> upstream \<Rightarrow> booking_body \<Rightarrow> request list \<Rightarrow> redirect reply \<times> request list" where
  "confirm_booking toUpperCase up body tr =
     (if missing_required body then (Status 400 ''Missing required fields'', tr)
      else
        (case axios up (GetFlightOffers (originCode body) (destinationCode body) (departureDate body)) tr of
           (OfferData offers, tr1) \<Rightarrow>
             (case find (\<lambda>offer. Some (offer_id offer) = offerId body) offers of
                None \<Rightarrow> (Status 404 ''Flight offer not found'', tr1)
              | Some flightOffer \<Rightarrow>
                  (case axios up (PostFlightOrder (bookingPayload toUpperCase flightOffer body)) tr1 of
                     (Rejected, tr2) \<Rightarrow> (Status 500 ''Error confirming booking'', tr2)
                   | (OrderCreated bookingId, tr2) \<Rightarrow>
                       (if truthy bookingId
                        then (Render
                                \<lparr>redirect_name = str_of (travelerName body),
                                 redirect_email = str_of (travelerEmail body),
                                 redirect_phone = str_of (travelerPhone body),
                                 redirect_dob = str_of (travelerDOB body),
                                 redirect_gender = str_of (travelerGender body),
                                 redirect_bookingId = str_of bookingId\<rparr>, tr2)
                        else (Status 500 ''Booking was not successful'', tr2))
                   | (_, tr2) \<Rightarrow> (Status 500 ''Booking was not successful'', tr2)))
         | (_, tr1) \<Rightarrow> (Status 500 ''Error confirming booking'', tr1)))"

text \<open>A \<open>/confirm-booking\<close> request as the application serves it: the
  middleware, then the handler.\<close>

definition confirm_booking_request :: "(string \<Rightarrow> string) \<Rightarrow> upstream \<Rightarrow> string option \<Rightarrow> booking_body \<Rightarrow> request list \<Rightarrow> (redirect reply \<times> request list) \<times> string option" where
  "confirm_booking_request toUpperCase up accessToken body tr =
     (case ensure_authenticated up accessToken tr of
        (accessToken', tr1) \<Rightarrow> (confirm_booking toUpperCase up body tr1, accessToken'))"

section \<open>Reading the data\<close>

text \<open>The segments of an offer, and of a booking, in document order; an absent
  array contributes none.\<close>

definition offer_segments :: "flight_offer \<Rightarrow> segment list" where
  "offer_segments offer =
     concat (map (\<lambda>itin. case segments itin of Some segs \<Rightarrow> segs | None \<Rightarrow> [])
               (case itineraries offer of Some itins \<Rightarrow> itins | None \<Rightarrow> []))"

definition booking_segments :: "booking \<Rightarrow> segment list" where
  "booking_segments b =
     concat (map offer_segments
               (case booking_flightOffers b of Some offers \<Rightarrow> offers | None \<Rightarrow> []))"

text \<open>The answer to the lookup of \<open>c\<close> in the loop over \<open>codes\<close> entered with
  history \<open>tr\<close>: by then the codes before \<open>c\<close> have been asked.\<close>

definition lookup_answer :: "upstream \<Rightarrow> request list \<Rightarrow> string list \<Rightarrow> string \<Rightarrow> response" where
  "lookup_answer up tr codes c =
     up (tr @ map GetAirlines (takeWhile (\<lambda>x. x \<noteq> c) codes)) (GetAirlines c)"

section \<open>Example data\<close>

definition example_endpoint :: "string \<Rightarrow> string \<Rightarrow> endpoint" where
  "example_endpoint c t =
     \<lparr>iataCode = c, terminal = None, at = t, cityName = None, airportName = None\<rparr>"

definition example_segment :: "string \<Rightarrow> string \<Rightarrow> string \<Rightarrow> segment" where
  "example_segment cc dep arr =
     \<lparr>seg_id = ''1'', carrierCode = cc, number = ''117'',
      departure = example_endpoint dep ''2024-01-01T10:00'',
      arrival = (example_endpoint arr ''2024-01-01T12:30'')\<lparr>terminal := Some ''5''\<rparr>,
      airlineName = None, flightDuration = None\<rparr>"

definition example_offer :: "string \<Rightarrow> string \<Rightarrow> string \<Rightarrow> string \<Rightarrow> flight_offer" where
  "example_offer i cc dep arr =
     \<lparr>offer_id = i,
      offer_price = \<lparr>price_total = ''420.00'', totalTaxes = None\<rparr>,
      itineraries =
        Some [\<lparr>segments = Some [example_segment cc dep arr, example_segment cc arr dep]\<rparr>]\<rparr>"

definition example_location :: "string \<Rightarrow> string option \<Rightarrow> string option \<Rightarrow> location" where
  "example_location c n cn =
     \<lparr>loc_iataCode = c, loc_name = n, address = Some \<lparr>addr_cityName = cn\<rparr>\<rparr>"

definition example_airline :: "string \<Rightarrow> string \<Rightarrow> airline_data" where
  "example_airline c n = \<lparr>al_iataCode = c, commonName = Some n, officialName = None\<rparr>"

definition example_upstream :: upstream where
  "example_upstream h rq =
     (case rq of
        PostToken \<Rightarrow> TokenData (Some ''token'')
      | GetLocations k t \<Rightarrow>
          (if k = ''LHR'' then LocationData [example_location ''LHR'' (Some ''HEATHROW'') (Some ''LONDON'')]
           else if k = ''JFK'' then LocationData [example_location ''JFK'' (Some ''JOHN F KENNEDY INTL'') None]
           else if k = ''LON'' then
             LocationData [example_location ''LHR'' (Some ''HEATHROW'') (Some ''LONDON''),
                           example_location ''LGW'' (Some ''GATWICK'') (Some ''LONDON'')]
           else if k = ''XYZ'' then LocationData []
           else Rejected)
      | GetAirlines c \<Rightarrow>
          (if c = ''BA'' then AirlineData [example_airline ''BA'' ''BRITISH AIRWAYS'']
           else if c = ''LH'' then AirlineData [example_airline ''LH'' ''LUFTHANSA'']
           else if c = ''ZZ'' then AirlineData []
           else Rejected)
      | GetFlightOffers a b c \<Rightarrow> OfferData [example_offer ''1'' ''BA'' ''JFK'' ''LHR'']
      | PostPricing offer \<Rightarrow> PricingData [offer]
      | PostFlightOrder p \<Rightarrow> OrderCreated (Some ''ORDER1'')
      | GetFlightOrder i \<Rightarrow>
          OrderData \<lparr>booking_flightOffers = Some [example_offer ''1'' ''BA'' ''JFK'' ''LHR'']\<rparr>)"


definition example_query :: flight_query where
  "example_query =
     \<lparr>q_offerId = Some ''1'', q_originCode = Some ''JFK'', q_destinationCode = Some ''LHR'',
      q_departureDate = Some ''2024-01-01''\<rparr>"

definition example_booked_query :: booked_query where
  "example_booked_query =
     \<lparr>q_travelerInfo =
        \<lparr>info_name = Some ''Mary Smith'', info_email = Some ''m@example.org'',
         info_phone = Some ''9876543210'', info_dob = Some ''1990-05-17'',
         info_gender = Some ''female''\<rparr>,
      q_bookingId = Some ''ORDER1''\<rparr>"

definition example_body :: "string \<Rightarrow> booking_body" where
  "example_body n =
     \<lparr>travelerName = Some n, travelerEmail = Some ''m@example.org'',
      travelerPhone = Some ''9876543210'', travelerDOB = Some ''1990-05-17'',
      travelerGender = Some ''female'', offerId = Some ''1'', originCode = Some ''JFK'',
      destinationCode = Some ''LHR'', departureDate = Some ''2024-01-01''\<rparr>"

section \<open>Location resolver: results\<close>

lemma getRelatedAirportCodes_cases:
  "getRelatedAirportCodes up cityCode tr =
     ((case up tr (GetLocations cityCode ''AIRPORT'') of
         LocationData ls \<Rightarrow> map loc_iataCode ls
       | _ \<Rightarrow> [cityCode]),
      tr @ [GetLocations cityCode ''AIRPORT''])"
  by (simp add: getRelatedAirportCodes_def axios_def split: response.splits)

text \<open>
  C2, as stated, at an upstream that answers the keyword with no airport: the
  lookup succeeds and the sequence returned is empty.
\<close>

theorem related_codes_empty_counterexample:
  "example_upstream [] (GetLocations ''XYZ'' ''AIRPORT'') = LocationData []
   \<and> fst (getRelatedAirportCodes example_upstream ''XYZ'' []) = []"
  by (simp add: getRelatedAirportCodes_cases example_upstream_def)

text \<open>
  C2, amended. \<open>getRelatedAirportCodes\<close> issues one location lookup of subtype
  AIRPORT. When the lookup succeeds it returns the \<open>iataCode\<close> of every match,
  in the order received; when it fails it returns exactly the one-element
  sequence holding the input code. The sequence is empty exactly when the
  lookup succeeds with no match.
\<close>

theorem related_codes_result:
  "(\<forall>ls. up tr (GetLocations cityCode ''AIRPORT'') = LocationData ls \<longrightarrow>
        fst (getRelatedAirportCodes up cityCode tr) = map loc_iataCode ls)
   \<and> ((\<forall>ls. up tr (GetLocations cityCode ''AIRPORT'') \<noteq> LocationData ls) \<longrightarrow>
        fst (getRelatedAirportCodes up cityCode tr) = [cityCode])
   \<and> (fst (getRelatedAirportCodes up cityCode tr) = [] \<longleftrightarrow>
        up tr (GetLocations cityCode ''AIRPORT'') = LocationData [])
   \<and> snd (getRelatedAirportCodes up cityCode tr) = tr @ [GetLocations cityCode ''AIRPORT'']"
  by (auto simp: getRelatedAirportCodes_cases split: response.splits)

theorem related_codes_result_witness:
  "fst (getRelatedAirportCodes example_upstream ''LON'' []) = [''LHR'', ''LGW'']
   \<and> fst (getRelatedAirportCodes example_upstream ''QQQ'' []) = [''QQQ'']"
proof -
  have ok: "example_upstream [] (GetLocations ''LON'' ''AIRPORT'') =
      LocationData [example_location ''LHR'' (Some ''HEATHROW'') (Some ''LONDON''),
                    example_location ''LGW'' (Some ''GATWICK'') (Some ''LONDON'')]"
    by (simp add: example_upstream_def)
  have bad: "\<forall>ls. example_upstream [] (GetLocations ''QQQ'' ''AIRPORT'') \<noteq> LocationData ls"
    by (simp add: example_upstream_def)
  from related_codes_result [of example_upstream "[]" "''LON''"] ok
  have "fst (getRelatedAirportCodes example_upstream ''LON'' []) =
      map loc_iataCode [example_location ''LHR'' (Some ''HEATHROW'') (Some ''LONDON''),
                        example_location ''LGW'' (Some ''GATWICK'') (Some ''LONDON'')]"
    by blast
  moreover from related_codes_result [of example_upstream "[]" "''QQQ''"] bad
  have "fst (getRelatedAirportCodes example_upstream ''QQQ'' []) = [''QQQ'']"
    by blast
  ultimately show ?thesis
    by (simp add: example_location_def)
qed

lemma getCityAndAirportName_cases:
  "getCityAndAirportName up c tr =
     ((case up tr (GetLocations c ''AIRPORT,CITY'') of
         LocationData (l # ls) \<Rightarrow>
           (case address l of
              Some a \<Rightarrow> \<lparr>city = js_or_str (addr_cityName a) c,
                         airport = js_or_str (loc_name l) ''Unknown Airport''\<rparr>
            | None \<Rightarrow> \<lparr>city = c, airport = ''Unknown Airport''\<rparr>)
       | _ \<Rightarrow> \<lparr>city = c, airport = ''Unknown Airport''\<rparr>),
      tr @ [GetLocations c ''AIRPORT,CITY''])"
  by (simp add: getCityAndAirportName_def axios_def split: response.splits list.splits option.splits)

lemma js_or_str_truthy: "v = Some s \<Longrightarrow> s \<noteq> [] \<Longrightarrow> js_or_str v b = s"
  by (simp add: js_or_str_def)

lemma js_or_str_falsy: "\<not> truthy v \<Longrightarrow> js_or_str v b = b"
  by (simp add: js_or_str_def truthy_def split: option.splits)

text \<open>
  C6, as stated, at a first match that carries an airport name and an address
  without a city name: the lookup succeeds with a match, and the city returned
  is the input code, which is not the first match's city.
\<close>

theorem first_match_city_counterexample:
  "example_upstream [] (GetLocations ''JFK'' ''AIRPORT,CITY'') =
      LocationData [example_location ''JFK'' (Some ''JOHN F KENNEDY INTL'') None]
   \<and> map_option addr_cityName (address (example_location ''JFK'' (Some ''JOHN F KENNEDY INTL'') None))
      \<noteq> Some (Some (city (fst (getCityAndAirportName example_upstream ''JFK'' []))))
   \<and> fst (getCityAndAirportName example_upstream ''JFK'' []) =
      \<lparr>city = ''JFK'', airport = ''JOHN F KENNEDY INTL''\<rparr>"
  by (simp add: getCityAndAirportName_cases example_upstream_def example_location_def js_or_str_def)

text \<open>
  C6, amended. On a successful lookup whose first match has an address,
  \<open>getCityAndAirportName\<close> returns the first match's city name, or the input code
  when that name is absent or empty, and the first match's name, or
  \<open>Unknown Airport\<close> when that is absent or empty. It returns exactly the input
  code with \<open>Unknown Airport\<close> whenever the lookup errors, returns no match, or
  the first match has no address.
\<close>

theorem city_and_airport_result:
  "(\<forall>l ls a. up tr (GetLocations c ''AIRPORT,CITY'') = LocationData (l # ls) \<and> address l = Some a \<longrightarrow>
        (\<forall>cn. addr_cityName a = Some cn \<and> cn \<noteq> [] \<longrightarrow> city (fst (getCityAndAirportName up c tr)) = cn)
      \<and> (\<not> truthy (addr_cityName a) \<longrightarrow> city (fst (getCityAndAirportName up c tr)) = c)
      \<and> (\<forall>n. loc_name l = Some n \<and> n \<noteq> [] \<longrightarrow> airport (fst (getCityAndAirportName up c tr)) = n)
      \<and> (\<not> truthy (loc_name l) \<longrightarrow>
            airport (fst (getCityAndAirportName up c tr)) = ''Unknown Airport''))
   \<and> ((\<forall>l ls. up tr (GetLocations c ''AIRPORT,CITY'') = LocationData (l # ls) \<longrightarrow> address l = None) \<longrightarrow>
        fst (getCityAndAirportName up c tr) = \<lparr>city = c, airport = ''Unknown Airport''\<rparr>)"
  by (auto simp: getCityAndAirportName_cases js_or_str_truthy js_or_str_falsy
      split: response.splits list.splits option.splits)

theorem city_and_airport_result_witness:
  "fst (getCityAndAirportName example_upstream ''LHR'' []) = \<lparr>city = ''LONDON'', airport = ''HEATHROW''\<rparr>
   \<and> fst (getCityAndAirportName example_upstream ''XYZ'' []) = \<lparr>city = ''XYZ'', airport = ''Unknown Airport''\<rparr>"
proof -
  let ?l = "example_location ''LHR'' (Some ''HEATHROW'') (Some ''LONDON'')"
  have ok: "example_upstream [] (GetLocations ''LHR'' ''AIRPORT,CITY'') = LocationData (?l # [])
      \<and> address ?l = Some \<lparr>addr_cityName = Some ''LONDON''\<rparr>"
    by (simp add: example_upstream_def example_location_def)
  have none: "\<forall>l ls. example_upstream [] (GetLocations ''XYZ'' ''AIRPORT,CITY'') = LocationData (l # ls) \<longrightarrow>
      address l = None"
    by (simp add: example_upstream_def)
  from city_and_airport_result [of example_upstream "[]" "''LHR''"] ok
  have "city (fst (getCityAndAirportName example_upstream ''LHR'' [])) = ''LONDON''
      \<and> airport (fst (getCityAndAirportName example_upstream ''LHR'' [])) = ''HEATHROW''"
    by (simp add: example_location_def)
  moreover from city_and_airport_result [of example_upstream "[]" "''XYZ''"] none
  have "fst (getCityAndAirportName example_upstream ''XYZ'' []) = \<lparr>city = ''XYZ'', airport = ''Unknown Airport''\<rparr>"
    by blast
  ultimately show ?thesis
    by (cases "fst (getCityAndAirportName example_upstream ''LHR'' [])") simp
qed

section \<open>Airline resolver: results\<close>

lemma remdups_snoc: "remdups (ys @ [x]) = filter (\<lambda>y. y \<noteq> x) (remdups ys) @ [x]"
  by (induction ys) auto

lemma first_appearance_Cons:
  "rev (remdups (rev (x # xs))) = x # filter (\<lambda>y. y \<noteq> x) (rev (remdups (rev xs)))"
  by (simp add: remdups_snoc rev_filter)

lemma foldl_set_add:
  "foldl set_add acc xs = acc @ filter (\<lambda>x. x \<notin> set acc) (rev (remdups (rev xs)))"
proof (induction xs arbitrary: acc)
  case Nil
  then show ?case by simp
next
  case (Cons x xs)
  show ?case
  proof (cases "x \<in> set acc")
    case True
    then have "filter (\<lambda>y. y \<notin> set acc) (filter (\<lambda>y. y \<noteq> x) (rev (remdups (rev xs))))
        = filter (\<lambda>y. y \<notin> set acc) (rev (remdups (rev xs)))"
      by (auto intro: filter_cong)
    with True Cons.IH [of acc] show ?thesis
      by (simp only: first_appearance_Cons foldl_Cons set_add_def if_True filter.simps) simp
  next
    case False
    have "filter (\<lambda>y. y \<notin> set (acc @ [x])) (rev (remdups (rev xs)))
        = filter (\<lambda>y. y \<notin> set acc) (filter (\<lambda>y. y \<noteq> x) (rev (remdups (rev xs))))"
      by (auto intro: filter_cong)
    with False Cons.IH [of "acc @ [x]"] show ?thesis
      by (simp only: first_appearance_Cons foldl_Cons set_add_def if_False filter.simps) simp
  qed
qed

lemma new_Set_first_appearance: "new_Set xs = rev (remdups (rev xs))"
  by (simp add: new_Set_def foldl_set_add)

lemma distinct_new_Set: "distinct (new_Set xs)"
  by (simp add: new_Set_first_appearance)

lemma map_filter_agree:
  "(\<And>x. x \<in> set xs \<Longrightarrow> f x = g x) \<Longrightarrow> List.map_filter f xs = List.map_filter g xs"
  by (induction xs) (auto split: option.splits)

lemma lookup_answer_head: "lookup_answer up tr (c # cs) c = up tr (GetAirlines c)"
  by (simp add: lookup_answer_def)

lemma lookup_answer_tail:
  "x \<noteq> c \<Longrightarrow> lookup_answer up tr (c # cs) x = lookup_answer up (tr @ [GetAirlines c]) cs x"
  by (simp add: lookup_answer_def)

lemma airlines_loop_result:
  "distinct codes \<Longrightarrow>
   airlines_loop up codes acc tr =
     (acc @ List.map_filter (\<lambda>c. try_airline (lookup_answer up tr codes c)) codes,
      tr @ map GetAirlines codes)"
proof (induction codes arbitrary: acc tr)
  case Nil
  then show ?case by (simp add:)
next
  case (Cons c cs)
  then have notin: "c \<notin> set cs" and dist: "distinct cs"
    by simp_all
  have rest: "List.map_filter (\<lambda>x. try_airline (lookup_answer up tr (c # cs) x)) cs
      = List.map_filter (\<lambda>x. try_airline (lookup_answer up (tr @ [GetAirlines c]) cs x)) cs"
  proof (rule map_filter_agree)
    fix x assume "x \<in> set cs"
    with notin have "x \<noteq> c" by blast
    then show "try_airline (lookup_answer up tr (c # cs) x)
        = try_airline (lookup_answer up (tr @ [GetAirlines c]) cs x)"
      by (simp add: lookup_answer_tail)
  qed
  show ?case
    by (simp add: axios_def Cons.IH [OF dist] lookup_answer_head rest
        split: option.splits)
qed

lemma getAirlines_result:
  "uniqueCarrierCodes flights = Inr codes \<Longrightarrow>
   getAirlinesFromFlightOffers up flights tr =
     (Inr (List.map_filter (\<lambda>c. try_airline (lookup_answer up tr codes c)) codes),
      tr @ map GetAirlines codes)"
proof -
  assume u: "uniqueCarrierCodes flights = Inr codes"
  then have "distinct codes"
    by (auto simp: uniqueCarrierCodes_def distinct_new_Set split: sum.splits)
  with u show ?thesis
    by (simp add: getAirlinesFromFlightOffers_def airlines_loop_result)
qed

lemma airlines_loop_reject_empty:
  "airlines_loop (\<lambda>h r. if up h r = AirlineData [] then Rejected else up h r) codes acc tr
     = airlines_loop up codes acc tr"
  by (induction codes arbitrary: acc tr)
    (simp_all add: axios_def try_airline_def split: response.splits list.splits)

lemma map_filter_removeAll:
  "f c = None \<Longrightarrow> List.map_filter f (removeAll c xs) = List.map_filter f xs"
  by (induction xs) (auto split: option.splits)


lemma enrich_segment_airlineName:
  "airlineName (fst (enrich_segment Date up airlines seg tr)) = airlineName_of airlines (carrierCode seg)"
  by (simp add: enrich_segment_def split: prod.splits)

text \<open>
  C10. When the lookup of a unique carrier code succeeds with an empty list of
  records, \<open>getAirlinesFromFlightOffers\<close> returns only the entries of the other
  codes: none is made for that code, and the whole result (set and requests) is
  the one obtained when every such empty answer is a rejected lookup instead.
\<close>

theorem empty_airline_answer_omitted:
  assumes "uniqueCarrierCodes flights = Inr codes"
    and "lookup_answer up tr codes c = AirlineData []"
  shows "fst (getAirlinesFromFlightOffers up flights tr) =
           Inr (List.map_filter (\<lambda>x. try_airline (lookup_answer up tr codes x)) (removeAll c codes))
         \<and> getAirlinesFromFlightOffers up flights tr =
             getAirlinesFromFlightOffers
               (\<lambda>h r. if up h r = AirlineData [] then Rejected else up h r) flights tr"
proof -
  have "try_airline (lookup_answer up tr codes c) = None"
    using assms(2) by (simp add: try_airline_def)
  then have "List.map_filter (\<lambda>x. try_airline (lookup_answer up tr codes x)) (removeAll c codes)
      = List.map_filter (\<lambda>x. try_airline (lookup_answer up tr codes x)) codes"
    by (rule map_filter_removeAll)
  then have first: "fst (getAirlinesFromFlightOffers up flights tr) =
      Inr (List.map_filter (\<lambda>x. try_airline (lookup_answer up tr codes x)) (removeAll c codes))"
    by (simp add: getAirlines_result [OF assms(1)])
  have second: "getAirlinesFromFlightOffers up flights tr =
      getAirlinesFromFlightOffers
        (\<lambda>h r. if up h r = AirlineData [] then Rejected else up h r) flights tr"
    by (simp add: getAirlinesFromFlightOffers_def assms(1) airlines_loop_reject_empty)
  from first second show ?thesis ..
qed

theorem empty_airline_answer_omitted_witness:
  "uniqueCarrierCodes [example_offer ''1'' ''BA'' ''JFK'' ''LHR'', example_offer ''2'' ''ZZ'' ''JFK'' ''LHR'']
      = Inr [''BA'', ''ZZ'']
   \<and> lookup_answer example_upstream [] [''BA'', ''ZZ''] ''ZZ'' = AirlineData []
   \<and> fst (getAirlinesFromFlightOffers example_upstream
            [example_offer ''1'' ''BA'' ''JFK'' ''LHR'', example_offer ''2'' ''ZZ'' ''JFK'' ''LHR''] [])
      = Inr [\<lparr>code = ''BA'', name = Some ''BRITISH AIRWAYS''\<rparr>]"
proof -
  have codes: "uniqueCarrierCodes
      [example_offer ''1'' ''BA'' ''JFK'' ''LHR'', example_offer ''2'' ''ZZ'' ''JFK'' ''LHR'']
      = Inr [''BA'', ''ZZ'']"
    by (simp add: uniqueCarrierCodes_def first_carrierCode_def first_segment_def example_offer_def
        example_segment_def new_Set_def set_add_def)
  have empty: "lookup_answer example_upstream [] [''BA'', ''ZZ''] ''ZZ'' = AirlineData []"
    by (simp add: lookup_answer_def example_upstream_def)
  have entries: "List.map_filter (\<lambda>x. try_airline (lookup_answer example_upstream [] [''BA'', ''ZZ''] x))
          (removeAll ''ZZ'' [''BA'', ''ZZ''])
      = [\<lparr>code = ''BA'', name = Some ''BRITISH AIRWAYS''\<rparr>]"
    by (simp add: lookup_answer_def example_upstream_def try_airline_def airline_entry_def
        example_airline_def js_or_def truthy_def)
  have "fst (getAirlinesFromFlightOffers example_upstream
            [example_offer ''1'' ''BA'' ''JFK'' ''LHR'', example_offer ''2'' ''ZZ'' ''JFK'' ''LHR''] [])
      = Inr [\<lparr>code = ''BA'', name = Some ''BRITISH AIRWAYS''\<rparr>]"
    using empty_airline_answer_omitted [OF codes empty, THEN conjunct1] by (simp only: entries)
  with codes empty show ?thesis
    by blast
qed







section \<open>Enrichment: what each loop produces\<close>




lemma enrich_segments_pointwise:
  "list_all2 (\<lambda>s s'. \<exists>tr0. s' = fst (enrich_segment Date up airlines s tr0))
     segs (fst (enrich_segments Date up airlines segs tr))"
proof (induction segs arbitrary: tr)
  case Nil
  then show ?case by simp
next
  case (Cons seg segs)
  have "fst (enrich_segments Date up airlines (seg # segs) tr)
      = fst (enrich_segment Date up airlines seg tr)
        # fst (enrich_segments Date up airlines segs (snd (enrich_segment Date up airlines seg tr)))"
    by (simp split: prod.splits)
  with Cons.IH show ?case
    by (simp only: list_all2_Cons) blast
qed


lemma enrich_itineraries_pointwise:
  "enrich_itineraries Date up airlines itins tr = (Inr itins', tr') \<Longrightarrow>
   list_all2
     (\<lambda>i i'. \<exists>segs tr0. segments i = Some segs
        \<and> i' = i\<lparr>segments := Some (fst (enrich_segments Date up airlines segs tr0))\<rparr>)
     itins itins'"
proof (induction itins arbitrary: tr itins' tr')
  case Nil
  then show ?case by simp
next
  case (Cons itin itins)
  from Cons.prems obtain segs where segs: "segments itin = Some segs"
    by (cases "segments itin") auto
  let ?tr1 = "snd (enrich_segments Date up airlines segs tr)"
  from Cons.prems segs obtain rest where
    rest: "enrich_itineraries Date up airlines itins ?tr1 = (Inr rest, tr')"
    and out: "itins' = itin\<lparr>segments := Some (fst (enrich_segments Date up airlines segs tr))\<rparr> # rest"
    by (auto split: prod.splits sum.splits)
  from Cons.IH [OF rest] segs show ?case
    unfolding out by (simp only: list_all2_Cons) blast
qed

lemma enrich_priced_Render:
  "enrich_priced Date up flightOffer priced tr = (Render v, tr') \<Longrightarrow>
   \<exists>airlines tr1 offer0 rest itins itins'.
     getAirlinesFromFlightOffers up [flightOffer] tr = (Inr airlines, tr1)
     \<and> priced = Some (offer0 # rest)
     \<and> itineraries offer0 = Some itins
     \<and> enrich_itineraries Date up airlines itins tr1 = (Inr itins', tr')
     \<and> v = \<lparr>flight = offer0\<lparr>itineraries := Some itins'\<rparr>,
            totalPrice = price_total (offer_price offer0),
            totalTax = js_or_str (totalTaxes (offer_price offer0)) ''N/A''\<rparr>"
  by (auto simp: enrich_priced_def split: prod.splits sum.splits option.splits list.splits)








section \<open>Flight search filter: results\<close>

lemma filter_throw_total:
  "\<forall>x \<in> set xs. \<exists>b. f x = Inr b \<Longrightarrow> filter_throw f xs = Inr (filter (\<lambda>x. f x = Inr True) xs)"
  by (induction xs) auto

lemma filter_throw_error:
  "\<exists>x \<in> set xs. f x = Inl TypeError \<Longrightarrow> filter_throw f xs = Inl TypeError"
proof (induction xs)
  case Nil
  then show ?case by simp
next
  case (Cons x xs)
  show ?case
  proof (cases "f x")
    case (Inl e)
    then show ?thesis by (cases e) simp
  next
    case (Inr b)
    with Cons.prems have "\<exists>x \<in> set xs. f x = Inl TypeError" by auto
    from Cons.IH [OF this] Inr show ?thesis by simp
  qed
qed

text \<open>
  C5. When every raw offer has a first segment in its first itinerary, the
  \<open>/flight-offers\<close> filter returns, in their order, exactly the offers whose
  first segment departs from the given origin code and arrives at one of the
  related airport codes. (An offer without such a segment makes the filter
  throw, and the handler answers 500.)
\<close>

theorem flight_filter_retains:
  "((\<forall>flight \<in> set flightData. \<exists>s. first_segment flight = Inr s) \<longrightarrow>
      filteredFlights originCode0 destinationCodes flightData =
        Inr (filter
               (\<lambda>flight. case first_segment flight of
                    Inr s \<Rightarrow> Some (iataCode (departure s)) = originCode0
                             \<and> iataCode (arrival s) \<in> set destinationCodes
                  | Inl e \<Rightarrow> False)
               flightData))
   \<and> ((\<exists>flight \<in> set flightData. first_segment flight = Inl TypeError) \<longrightarrow>
        filteredFlights originCode0 destinationCodes flightData = Inl TypeError)"
proof (intro conjI impI)
  assume ok: "\<forall>flight \<in> set flightData. \<exists>s. first_segment flight = Inr s"
  then have "\<forall>flight \<in> set flightData. \<exists>b. offer_matches originCode0 destinationCodes flight = Inr b"
    by (auto simp: offer_matches_def)
  then have "filteredFlights originCode0 destinationCodes flightData =
      Inr (filter (\<lambda>flight. offer_matches originCode0 destinationCodes flight = Inr True) flightData)"
    unfolding filteredFlights_def by (rule filter_throw_total)
  moreover have "filter (\<lambda>flight. offer_matches originCode0 destinationCodes flight = Inr True) flightData
      = filter (\<lambda>flight. case first_segment flight of
                    Inr s \<Rightarrow> Some (iataCode (departure s)) = originCode0
                             \<and> iataCode (arrival s) \<in> set destinationCodes
                  | Inl e \<Rightarrow> False) flightData"
    by (rule filter_cong) (auto simp: offer_matches_def split: sum.splits)
  ultimately show "filteredFlights originCode0 destinationCodes flightData =
      Inr (filter (\<lambda>flight. case first_segment flight of
                    Inr s \<Rightarrow> Some (iataCode (departure s)) = originCode0
                             \<and> iataCode (arrival s) \<in> set destinationCodes
                  | Inl e \<Rightarrow> False) flightData)"
    by simp
next
  assume "\<exists>flight \<in> set flightData. first_segment flight = Inl TypeError"
  then obtain flight where "flight \<in> set flightData" and "first_segment flight = Inl TypeError"
    by blast
  moreover from this have "offer_matches originCode0 destinationCodes flight = Inl TypeError"
    by (simp add: offer_matches_def)
  ultimately have "\<exists>flight \<in> set flightData. offer_matches originCode0 destinationCodes flight = Inl TypeError"
    by blast
  then show "filteredFlights originCode0 destinationCodes flightData = Inl TypeError"
    unfolding filteredFlights_def by (rule filter_throw_error)
qed

theorem flight_filter_retains_witness:
  "filteredFlights (Some ''JFK'') [''LHR'']
     [example_offer ''1'' ''BA'' ''JFK'' ''LHR'', example_offer ''2'' ''AF'' ''JFK'' ''CDG'',
      example_offer ''3'' ''BA'' ''LGA'' ''LHR'', example_offer ''4'' ''AF'' ''LGA'' ''CDG'']
   = Inr [example_offer ''1'' ''BA'' ''JFK'' ''LHR'']"
proof -
  let ?data = "[example_offer ''1'' ''BA'' ''JFK'' ''LHR'', example_offer ''2'' ''AF'' ''JFK'' ''CDG'',
      example_offer ''3'' ''BA'' ''LGA'' ''LHR'', example_offer ''4'' ''AF'' ''LGA'' ''CDG'']"
  have ok: "\<forall>flight \<in> set ?data. \<exists>s. first_segment flight = Inr s"
    by (simp add: first_segment_def example_offer_def)
  from flight_filter_retains [of ?data "Some ''JFK''" "[''LHR'']"] ok
  have "filteredFlights (Some ''JFK'') [''LHR''] ?data =
      Inr (filter (\<lambda>flight. case first_segment flight of
                    Inr s \<Rightarrow> Some (iataCode (departure s)) = Some ''JFK''
                             \<and> iataCode (arrival s) \<in> set [''LHR'']
                  | Inl e \<Rightarrow> False) ?data)"
    by blast
  then show ?thesis
    by (simp add: first_segment_def example_offer_def example_segment_def example_endpoint_def)
qed

section \<open>Flight duration: results\<close>




section \<open>Booking: results\<close>

text \<open>
  C8. When any of the nine required fields of a \<open>/confirm-booking\<close> body is
  absent or empty, the handler answers 400 and its history of upstream requests
  is the one it was entered with: it has issued none. The same holds of the
  whole request, middleware included, when a token is held; when none is held
  the middleware's credential exchange is the only request.
\<close>

theorem missing_field_rejected:
  assumes "\<not> truthy (travelerName body) \<or> \<not> truthy (travelerEmail body)
      \<or> \<not> truthy (travelerPhone body) \<or> \<not> truthy (travelerDOB body)
      \<or> \<not> truthy (travelerGender body) \<or> \<not> truthy (offerId body)
      \<or> \<not> truthy (originCode body) \<or> \<not> truthy (destinationCode body)
      \<or> \<not> truthy (departureDate body)"
  shows "confirm_booking toUpperCase up body tr = (Status 400 ''Missing required fields'', tr)
    \<and> (truthy accessToken \<longrightarrow>
          confirm_booking_request toUpperCase up accessToken body tr =
            ((Status 400 ''Missing required fields'', tr), accessToken))
    \<and> (\<not> truthy accessToken \<longrightarrow>
          fst (confirm_booking_request toUpperCase up accessToken body tr) =
            (Status 400 ''Missing required fields'', tr @ [PostToken]))"
proof -
  from assms have "missing_required body"
    unfolding missing_required_def .
  then have handler: "\<And>t. confirm_booking toUpperCase up body t = (Status 400 ''Missing required fields'', t)"
    by (simp add: confirm_booking_def)
  have "snd (authenticateAmadeus up accessToken tr) = tr @ [PostToken]"
    by (simp add: authenticateAmadeus_def axios_def split: response.splits)
  then show ?thesis
    by (simp add: handler confirm_booking_request_def ensure_authenticated_def case_prod_beta)
qed

theorem missing_field_rejected_witness:
  "\<not> truthy (travelerPhone ((example_body ''Mary Smith'')\<lparr>travelerPhone := None\<rparr>))
   \<and> confirm_booking toUpperCase_ascii example_upstream ((example_body ''Mary Smith'')\<lparr>travelerPhone := None\<rparr>) []
       = (Status 400 ''Missing required fields'', [])
   \<and> confirm_booking_request toUpperCase_ascii example_upstream (Some ''token'')
        ((example_body ''Mary Smith'')\<lparr>travelerPhone := None\<rparr>) []
       = ((Status 400 ''Missing required fields'', []), Some ''token'')"
proof -
  let ?body = "(example_body ''Mary Smith'')\<lparr>travelerPhone := None\<rparr>"
  have missing: "\<not> truthy (travelerPhone ?body)"
    by (simp add: truthy_def)
  then have hyp: "\<not> truthy (travelerName ?body) \<or> \<not> truthy (travelerEmail ?body)
      \<or> \<not> truthy (travelerPhone ?body) \<or> \<not> truthy (travelerDOB ?body)
      \<or> \<not> truthy (travelerGender ?body) \<or> \<not> truthy (offerId ?body)
      \<or> \<not> truthy (originCode ?body) \<or> \<not> truthy (destinationCode ?body)
      \<or> \<not> truthy (departureDate ?body)"
    by (intro disjI2 disjI1)
  have token: "truthy (Some ''token'')"
    by (simp add: truthy_def)
  note r = missing_field_rejected [OF hyp, of toUpperCase_ascii example_upstream "[]" "Some ''token''"]
  from r have handler: "confirm_booking toUpperCase_ascii example_upstream ?body []
      = (Status 400 ''Missing required fields'', [])"
    by (rule conjunct1)
  from r have "truthy (Some ''token'') \<longrightarrow>
      confirm_booking_request toUpperCase_ascii example_upstream (Some ''token'') ?body []
        = ((Status 400 ''Missing required fields'', []), Some ''token'')"
    by (rule conjunct2 [THEN conjunct1])
  from this token have "confirm_booking_request toUpperCase_ascii example_upstream (Some ''token'') ?body []
      = ((Status 400 ''Missing required fields'', []), Some ''token'')"
    by (rule mp)
  with missing handler show ?thesis
    by (intro conjI)
qed

text \<open>
  C9, at the names \<open>Mary Ann Smith\<close> and \<open>Mary  Smith\<close> (two spaces). For a valid
  request whose offer is found, the handler posts one order; its traveler has
  the first name \<open>Mary\<close> and, as last name, the second space-separated piece of
  the name only: \<open>Ann\<close> for the first name given, the empty string for the
  second, where the parts after the first space are \<open>Ann Smith\<close> and \<open> Smith\<close>.
\<close>

theorem last_name_second_piece:
  "snd (confirm_booking toUpperCase example_upstream (example_body ''Mary Ann Smith'') []) =
     [GetFlightOffers (Some ''JFK'') (Some ''LHR'') (Some ''2024-01-01''),
      PostFlightOrder (bookingPayload toUpperCase (example_offer ''1'' ''BA'' ''JFK'' ''LHR'')
                         (example_body ''Mary Ann Smith''))]
   \<and> map traveler_name
        (travelers (bookingPayload toUpperCase (example_offer ''1'' ''BA'' ''JFK'' ''LHR'')
                      (example_body ''Mary Ann Smith'')))
       = [\<lparr>firstName = Some ''Mary'', lastName = ''Ann''\<rparr>]
   \<and> map traveler_name
        (travelers (bookingPayload toUpperCase (example_offer ''1'' ''BA'' ''JFK'' ''LHR'')
                      (example_body ''Mary  Smith'')))
       = [\<lparr>firstName = Some ''Mary'', lastName = []\<rparr>]
   \<and> drop 1 (dropWhile (\<lambda>c. c \<noteq> CHR '' '') ''Mary Ann Smith'') = ''Ann Smith''
   \<and> drop 1 (dropWhile (\<lambda>c. c \<noteq> CHR '' '') ''Mary  Smith'') = '' Smith''"
  by (simp add: confirm_booking_def missing_required_def example_body_def truthy_def axios_def
      example_upstream_def example_offer_def bookingPayload_def str_of_def js_index_def
      js_or_str_def)

section \<open>Enrichment: what it leaves alone\<close>

lemma enrich_segment_frame:
  "seg_id (fst (enrich_segment Date up airlines s tr)) = seg_id s
   \<and> carrierCode (fst (enrich_segment Date up airlines s tr)) = carrierCode s
   \<and> number (fst (enrich_segment Date up airlines s tr)) = number s
   \<and> iataCode (departure (fst (enrich_segment Date up airlines s tr))) = iataCode (departure s)
   \<and> iataCode (arrival (fst (enrich_segment Date up airlines s tr))) = iataCode (arrival s)
   \<and> at (departure (fst (enrich_segment Date up airlines s tr))) = at (departure s)
   \<and> at (arrival (fst (enrich_segment Date up airlines s tr))) = at (arrival s)
   \<and> terminal (departure (fst (enrich_segment Date up airlines s tr)))
       = Some (js_or_str (terminal (departure s)) ''N/A'')
   \<and> terminal (arrival (fst (enrich_segment Date up airlines s tr)))
       = Some (js_or_str (terminal (arrival s)) ''N/A'')
   \<and> cityName (departure (fst (enrich_segment Date up airlines s tr))) \<noteq> None
   \<and> airportName (departure (fst (enrich_segment Date up airlines s tr))) \<noteq> None
   \<and> cityName (arrival (fst (enrich_segment Date up airlines s tr))) \<noteq> None
   \<and> airportName (arrival (fst (enrich_segment Date up airlines s tr))) \<noteq> None
   \<and> flightDuration (fst (enrich_segment Date up airlines s tr)) \<noteq> None"
  by (simp add: enrich_segment_def enrich_endpoint_def split: prod.splits)

lemma terminal_default:
  "(truthy t \<longrightarrow> Some (js_or_str t ''N/A'') = t) \<and> (\<not> truthy t \<longrightarrow> Some (js_or_str t ''N/A'') = Some ''N/A'')"
  by (simp add: truthy_def js_or_str_def split: option.splits)

lemma booked_segment_frame:
  "seg_id (fst (booked_segment up s tr)) = seg_id s
   \<and> carrierCode (fst (booked_segment up s tr)) = carrierCode s
   \<and> number (fst (booked_segment up s tr)) = number s
   \<and> airlineName (fst (booked_segment up s tr)) = airlineName s
   \<and> flightDuration (fst (booked_segment up s tr)) = flightDuration s
   \<and> iataCode (departure (fst (booked_segment up s tr))) = iataCode (departure s)
   \<and> iataCode (arrival (fst (booked_segment up s tr))) = iataCode (arrival s)
   \<and> at (departure (fst (booked_segment up s tr))) = at (departure s)
   \<and> at (arrival (fst (booked_segment up s tr))) = at (arrival s)
   \<and> cityName (departure (fst (booked_segment up s tr))) \<noteq> None
   \<and> airportName (departure (fst (booked_segment up s tr))) \<noteq> None
   \<and> cityName (arrival (fst (booked_segment up s tr))) \<noteq> None
   \<and> airportName (arrival (fst (booked_segment up s tr))) \<noteq> None"
  by (simp add: booked_segment_def rebuild_endpoint_def split: prod.splits)

lemma booked_segments_result:
  "\<exists>out. fst (booked_segments up segs acc tr) = acc @ out
     \<and> list_all2 (\<lambda>s s'. \<exists>tr0. s' = fst (booked_segment up s tr0)) segs out"
proof (induction segs arbitrary: acc tr)
  case Nil
  then show ?case by simp
next
  case (Cons seg segs)
  let ?s' = "fst (booked_segment up seg tr)"
  let ?tr1 = "snd (booked_segment up seg tr)"
  from Cons.IH [of "acc @ [?s']" ?tr1] obtain out where
    out: "fst (booked_segments up segs (acc @ [?s']) ?tr1) = (acc @ [?s']) @ out"
    and rel: "list_all2 (\<lambda>s s'. \<exists>tr0. s' = fst (booked_segment up s tr0)) segs out"
    by blast
  have "fst (booked_segments up (seg # segs) acc tr) = acc @ (?s' # out)"
    using out by (simp add: case_prod_beta)
  moreover have "list_all2 (\<lambda>s s'. \<exists>tr0. s' = fst (booked_segment up s tr0)) (seg # segs) (?s' # out)"
    using rel by (simp only: list_all2_Cons) blast
  ultimately show ?case by blast
qed

lemma booked_itineraries_result:
  "\<exists>out. fst (booked_itineraries up itins acc tr) = acc @ out
     \<and> list_all2 (\<lambda>s s'. \<exists>tr0. s' = fst (booked_segment up s tr0))
          (concat (map (\<lambda>itin. case segments itin of Some segs \<Rightarrow> segs | None \<Rightarrow> []) itins)) out"
proof (induction itins arbitrary: acc tr)
  case Nil
  then show ?case by simp
next
  case (Cons itin itins)
  show ?case
  proof (cases "segments itin")
    case None
    with Cons.IH [of acc tr] show ?thesis by simp
  next
    case (Some segs)
    from booked_segments_result [of up segs acc tr] obtain out1 where
      o1: "fst (booked_segments up segs acc tr) = acc @ out1"
      and r1: "list_all2 (\<lambda>s s'. \<exists>tr0. s' = fst (booked_segment up s tr0)) segs out1"
      by blast
    let ?tr1 = "snd (booked_segments up segs acc tr)"
    from Cons.IH [of "acc @ out1" ?tr1] obtain out2 where
      o2: "fst (booked_itineraries up itins (acc @ out1) ?tr1) = (acc @ out1) @ out2"
      and r2: "list_all2 (\<lambda>s s'. \<exists>tr0. s' = fst (booked_segment up s tr0))
          (concat (map (\<lambda>itin. case segments itin of Some segs \<Rightarrow> segs | None \<Rightarrow> []) itins)) out2"
      by blast
    have "fst (booked_itineraries up (itin # itins) acc tr) = acc @ (out1 @ out2)"
      using Some o1 o2 by (simp add: case_prod_beta)
    moreover have "list_all2 (\<lambda>s s'. \<exists>tr0. s' = fst (booked_segment up s tr0))
        (concat (map (\<lambda>itin. case segments itin of Some segs \<Rightarrow> segs | None \<Rightarrow> []) (itin # itins)))
        (out1 @ out2)"
      using Some r1 r2 by (simp add: list_all2_appendI)
    ultimately show ?thesis by blast
  qed
qed

lemma booked_offers_result:
  "\<exists>out. fst (booked_offers up offers acc tr) = acc @ out
     \<and> list_all2 (\<lambda>s s'. \<exists>tr0. s' = fst (booked_segment up s tr0))
          (concat (map offer_segments offers)) out"
proof (induction offers arbitrary: acc tr)
  case Nil
  then show ?case by simp
next
  case (Cons offer offers)
  show ?case
  proof (cases "itineraries offer")
    case None
    with Cons.IH [of acc tr] show ?thesis by (simp add: offer_segments_def)
  next
    case (Some itins)
    from booked_itineraries_result [of up itins acc tr] obtain out1 where
      o1: "fst (booked_itineraries up itins acc tr) = acc @ out1"
      and r1: "list_all2 (\<lambda>s s'. \<exists>tr0. s' = fst (booked_segment up s tr0)) (offer_segments offer) out1"
      using Some by (auto simp: offer_segments_def)
    let ?tr1 = "snd (booked_itineraries up itins acc tr)"
    from Cons.IH [of "acc @ out1" ?tr1] obtain out2 where
      o2: "fst (booked_offers up offers (acc @ out1) ?tr1) = (acc @ out1) @ out2"
      and r2: "list_all2 (\<lambda>s s'. \<exists>tr0. s' = fst (booked_segment up s tr0))
          (concat (map offer_segments offers)) out2"
      by blast
    have "fst (booked_offers up (offer # offers) acc tr) = acc @ (out1 @ out2)"
      using Some o1 o2 by (simp add: case_prod_beta)
    moreover have "list_all2 (\<lambda>s s'. \<exists>tr0. s' = fst (booked_segment up s tr0))
        (concat (map offer_segments (offer # offers))) (out1 @ out2)"
      using r1 r2 by (simp add: list_all2_appendI)
    ultimately show ?thesis by blast
  qed
qed

lemma booked_flight_Render:
  "booked_flight up q tr = (Render v, tr') \<Longrightarrow>
   \<exists>bookingId. q_bookingId q = Some bookingId
     \<and> up tr (GetFlightOrder bookingId) = OrderData (bookingDetails v)
     \<and> list_all2 (\<lambda>s s'. \<exists>tr0. s' = fst (booked_segment up s tr0))
          (booking_segments (bookingDetails v)) (view_segments v)"
proof -
  assume run: "booked_flight up q tr = (Render v, tr')"
  then obtain bookingId where id: "q_bookingId q = Some bookingId"
    by (cases "q_bookingId q") (auto simp: booked_flight_def truthy_def)
  from run id obtain b where b: "up tr (GetFlightOrder bookingId) = OrderData b"
    by (auto simp: booked_flight_def axios_def str_of_def split: if_splits response.splits)
  let ?tr1 = "tr @ [GetFlightOrder bookingId]"
  show ?thesis
  proof (cases "booking_flightOffers b")
    case None
    with run id b have "bookingDetails v = b" and "view_segments v = []"
      by (auto simp: booked_flight_def axios_def str_of_def split: if_splits)
    with None id b show ?thesis
      by (simp add: booking_segments_def)
  next
    case (Some offers)
    with run id b have bd: "bookingDetails v = b"
      and vs: "view_segments v = fst (booked_offers up offers [] ?tr1)"
      by (auto simp: booked_flight_def axios_def str_of_def split: if_splits prod.splits)
    from booked_offers_result [of up offers "[]" ?tr1] vs
    have "list_all2 (\<lambda>s s'. \<exists>tr0. s' = fst (booked_segment up s tr0))
        (concat (map offer_segments offers)) (view_segments v)"
      by auto
    with Some id b bd show ?thesis
      by (simp add: booking_segments_def)
  qed
qed

lemma flight_details_priced:
  "flight_details Date up q tr = (Render v, tr') \<Longrightarrow>
   \<exists>flightOffer offer0 rest.
     up (tr @ [GetFlightOffers (q_originCode q) (q_destinationCode q) (q_departureDate q)])
        (PostPricing flightOffer) = PricingData (offer0 # rest)
     \<and> enrich_priced Date up flightOffer (Some (offer0 # rest))
         (tr @ [GetFlightOffers (q_originCode q) (q_destinationCode q) (q_departureDate q),
                PostPricing flightOffer]) = (Render v, tr')"
proof -
  assume run: "flight_details Date up q tr = (Render v, tr')"
  let ?tr1 = "tr @ [GetFlightOffers (q_originCode q) (q_destinationCode q) (q_departureDate q)]"
  from run have t: "truthy (q_offerId q)"
    by (auto simp: flight_details_def split: if_splits)
  from run t obtain offers where
    o: "up tr (GetFlightOffers (q_originCode q) (q_destinationCode q) (q_departureDate q)) = OfferData offers"
    by (cases "up tr (GetFlightOffers (q_originCode q) (q_destinationCode q) (q_departureDate q))")
      (auto simp: flight_details_def axios_def)
  from run t o obtain flightOffer where
    f: "find (\<lambda>offer. Some (offer_id offer) = q_offerId q) offers = Some flightOffer"
    by (cases "find (\<lambda>offer. Some (offer_id offer) = q_offerId q) offers")
      (auto simp: flight_details_def axios_def)
  have none: "\<And>t. enrich_priced Date up flightOffer None t \<noteq> (Render v, tr')"
    by (auto simp: enrich_priced_def split: prod.splits sum.splits)
  from run t o f none obtain priced where p: "up ?tr1 (PostPricing flightOffer) = PricingData priced"
    and en: "enrich_priced Date up flightOffer (Some priced) (?tr1 @ [PostPricing flightOffer])
        = (Render v, tr')"
    by (cases "up ?tr1 (PostPricing flightOffer)") (auto simp: flight_details_def axios_def)
  from enrich_priced_Render [OF en] obtain offer0 rest where "priced = offer0 # rest"
    by auto
  with p en show ?thesis
    by auto
qed

lemma flight_details_frame:
  assumes "flight_details Date up q tr = (Render v, tr')"
  shows "\<exists>flightOffer offer0 rest airlines itins itins'.
      up (tr @ [GetFlightOffers (q_originCode q) (q_destinationCode q) (q_departureDate q)])
         (PostPricing flightOffer) = PricingData (offer0 # rest)
    \<and> offer_id (flight v) = offer_id offer0
    \<and> offer_price (flight v) = offer_price offer0
    \<and> itineraries offer0 = Some itins \<and> itineraries (flight v) = Some itins'
    \<and> list_all2
        (\<lambda>i i'. \<exists>segs segs'. segments i = Some segs \<and> segments i' = Some segs'
           \<and> list_all2
               (\<lambda>s s'. seg_id s' = seg_id s \<and> carrierCode s' = carrierCode s \<and> number s' = number s
                  \<and> iataCode (departure s') = iataCode (departure s)
                  \<and> iataCode (arrival s') = iataCode (arrival s)
                  \<and> at (departure s') = at (departure s) \<and> at (arrival s') = at (arrival s)
                  \<and> (truthy (terminal (departure s)) \<longrightarrow>
                        terminal (departure s') = terminal (departure s))
                  \<and> (\<not> truthy (terminal (departure s)) \<longrightarrow> terminal (departure s') = Some ''N/A'')
                  \<and> (truthy (terminal (arrival s)) \<longrightarrow> terminal (arrival s') = terminal (arrival s))
                  \<and> (\<not> truthy (terminal (arrival s)) \<longrightarrow> terminal (arrival s') = Some ''N/A'')
                  \<and> cityName (departure s') \<noteq> None \<and> airportName (departure s') \<noteq> None
                  \<and> cityName (arrival s') \<noteq> None \<and> airportName (arrival s') \<noteq> None
                  \<and> airlineName s' = airlineName_of airlines (carrierCode s)
                  \<and> flightDuration s' \<noteq> None)
               segs segs')
        itins itins'"
proof -
  from flight_details_priced [OF assms] obtain flightOffer offer0 rest where
    priced: "up (tr @ [GetFlightOffers (q_originCode q) (q_destinationCode q) (q_departureDate q)])
        (PostPricing flightOffer) = PricingData (offer0 # rest)"
    and en: "enrich_priced Date up flightOffer (Some (offer0 # rest))
         (tr @ [GetFlightOffers (q_originCode q) (q_destinationCode q) (q_departureDate q),
                PostPricing flightOffer]) = (Render v, tr')"
    by blast
  from enrich_priced_Render [OF en] obtain airlines tr1 itins itins' where
    its: "itineraries offer0 = Some itins"
    and run: "enrich_itineraries Date up airlines itins tr1 = (Inr itins', tr')"
    and v: "flight v = offer0\<lparr>itineraries := Some itins'\<rparr>"
    by force
  have seg: "\<And>s s'. \<exists>tr0. s' = fst (enrich_segment Date up airlines s tr0) \<Longrightarrow>
      seg_id s' = seg_id s \<and> carrierCode s' = carrierCode s \<and> number s' = number s
      \<and> iataCode (departure s') = iataCode (departure s)
      \<and> iataCode (arrival s') = iataCode (arrival s)
      \<and> at (departure s') = at (departure s) \<and> at (arrival s') = at (arrival s)
      \<and> (truthy (terminal (departure s)) \<longrightarrow> terminal (departure s') = terminal (departure s))
      \<and> (\<not> truthy (terminal (departure s)) \<longrightarrow> terminal (departure s') = Some ''N/A'')
      \<and> (truthy (terminal (arrival s)) \<longrightarrow> terminal (arrival s') = terminal (arrival s))
      \<and> (\<not> truthy (terminal (arrival s)) \<longrightarrow> terminal (arrival s') = Some ''N/A'')
      \<and> cityName (departure s') \<noteq> None \<and> airportName (departure s') \<noteq> None
      \<and> cityName (arrival s') \<noteq> None \<and> airportName (arrival s') \<noteq> None
      \<and> airlineName s' = airlineName_of airlines (carrierCode s)
                  \<and> flightDuration s' \<noteq> None"
    using enrich_segment_frame enrich_segment_airlineName terminal_default by (elim exE) simp
  have itin: "\<And>i i'. \<exists>segs tr0. segments i = Some segs
        \<and> i' = i\<lparr>segments := Some (fst (enrich_segments Date up airlines segs tr0))\<rparr> \<Longrightarrow>
      \<exists>segs segs'. segments i = Some segs \<and> segments i' = Some segs'
        \<and> list_all2 (\<lambda>s s'. \<exists>tr0. s' = fst (enrich_segment Date up airlines s tr0)) segs segs'"
    using enrich_segments_pointwise by fastforce
  from enrich_itineraries_pointwise [OF run]
  have "list_all2
      (\<lambda>i i'. \<exists>segs segs'. segments i = Some segs \<and> segments i' = Some segs'
         \<and> list_all2 (\<lambda>s s'. \<exists>tr0. s' = fst (enrich_segment Date up airlines s tr0)) segs segs')
      itins itins'"
    by (rule list_all2_mono) (rule itin)
  then have "list_all2
      (\<lambda>i i'. \<exists>segs segs'. segments i = Some segs \<and> segments i' = Some segs'
         \<and> list_all2
               (\<lambda>s s'. seg_id s' = seg_id s \<and> carrierCode s' = carrierCode s \<and> number s' = number s
                  \<and> iataCode (departure s') = iataCode (departure s)
                  \<and> iataCode (arrival s') = iataCode (arrival s)
                  \<and> at (departure s') = at (departure s) \<and> at (arrival s') = at (arrival s)
                  \<and> (truthy (terminal (departure s)) \<longrightarrow>
                        terminal (departure s') = terminal (departure s))
                  \<and> (\<not> truthy (terminal (departure s)) \<longrightarrow> terminal (departure s') = Some ''N/A'')
                  \<and> (truthy (terminal (arrival s)) \<longrightarrow> terminal (arrival s') = terminal (arrival s))
                  \<and> (\<not> truthy (terminal (arrival s)) \<longrightarrow> terminal (arrival s') = Some ''N/A'')
                  \<and> cityName (departure s') \<noteq> None \<and> airportName (departure s') \<noteq> None
                  \<and> cityName (arrival s') \<noteq> None \<and> airportName (arrival s') \<noteq> None
                  \<and> airlineName s' = airlineName_of airlines (carrierCode s)
                  \<and> flightDuration s' \<noteq> None)
               segs segs')
      itins itins'"
  proof (rule list_all2_mono)
    fix i i'
    assume "\<exists>segs segs'. segments i = Some segs \<and> segments i' = Some segs'
         \<and> list_all2 (\<lambda>s s'. \<exists>tr0. s' = fst (enrich_segment Date up airlines s tr0)) segs segs'"
    then obtain segs segs' where "segments i = Some segs" and "segments i' = Some segs'"
      and "list_all2 (\<lambda>s s'. \<exists>tr0. s' = fst (enrich_segment Date up airlines s tr0)) segs segs'"
      by blast
    moreover from this(3) have "list_all2
               (\<lambda>s s'. seg_id s' = seg_id s \<and> carrierCode s' = carrierCode s \<and> number s' = number s
                  \<and> iataCode (departure s') = iataCode (departure s)
                  \<and> iataCode (arrival s') = iataCode (arrival s)
                  \<and> at (departure s') = at (departure s) \<and> at (arrival s') = at (arrival s)
                  \<and> (truthy (terminal (departure s)) \<longrightarrow>
                        terminal (departure s') = terminal (departure s))
                  \<and> (\<not> truthy (terminal (departure s)) \<longrightarrow> terminal (departure s') = Some ''N/A'')
                  \<and> (truthy (terminal (arrival s)) \<longrightarrow> terminal (arrival s') = terminal (arrival s))
                  \<and> (\<not> truthy (terminal (arrival s)) \<longrightarrow> terminal (arrival s') = Some ''N/A'')
                  \<and> cityName (departure s') \<noteq> None \<and> airportName (departure s') \<noteq> None
                  \<and> cityName (arrival s') \<noteq> None \<and> airportName (arrival s') \<noteq> None
                  \<and> airlineName s' = airlineName_of airlines (carrierCode s)
                  \<and> flightDuration s' \<noteq> None)
               segs segs'"
      by (rule list_all2_mono) (rule seg)
    ultimately show "\<exists>segs segs'. segments i = Some segs \<and> segments i' = Some segs'
         \<and> list_all2
               (\<lambda>s s'. seg_id s' = seg_id s \<and> carrierCode s' = carrierCode s \<and> number s' = number s
                  \<and> iataCode (departure s') = iataCode (departure s)
                  \<and> iataCode (arrival s') = iataCode (arrival s)
                  \<and> at (departure s') = at (departure s) \<and> at (arrival s') = at (arrival s)
                  \<and> (truthy (terminal (departure s)) \<longrightarrow>
                        terminal (departure s') = terminal (departure s))
                  \<and> (\<not> truthy (terminal (departure s)) \<longrightarrow> terminal (departure s') = Some ''N/A'')
                  \<and> (truthy (terminal (arrival s)) \<longrightarrow> terminal (arrival s') = terminal (arrival s))
                  \<and> (\<not> truthy (terminal (arrival s)) \<longrightarrow> terminal (arrival s') = Some ''N/A'')
                  \<and> cityName (departure s') \<noteq> None \<and> airportName (departure s') \<noteq> None
                  \<and> cityName (arrival s') \<noteq> None \<and> airportName (arrival s') \<noteq> None
                  \<and> airlineName s' = airlineName_of airlines (carrierCode s)
                  \<and> flightDuration s' \<noteq> None)
               segs segs'"
      by blast
  qed
  with priced its v show ?thesis
    by (intro exI [of _ flightOffer] exI [of _ offer0] exI [of _ rest] exI [of _ airlines]
        exI [of _ itins] exI [of _ itins']) simp
qed

lemma booked_flight_frame:
  assumes "booked_flight up q tr = (Render v, tr')"
  shows "(\<exists>bookingId. q_bookingId q = Some bookingId
            \<and> up tr (GetFlightOrder bookingId) = OrderData (bookingDetails v))
    \<and> list_all2
        (\<lambda>s s'. seg_id s' = seg_id s \<and> carrierCode s' = carrierCode s \<and> number s' = number s
           \<and> airlineName s' = airlineName s \<and> flightDuration s' = flightDuration s
           \<and> iataCode (departure s') = iataCode (departure s)
           \<and> iataCode (arrival s') = iataCode (arrival s)
           \<and> at (departure s') = at (departure s) \<and> at (arrival s') = at (arrival s)
           \<and> cityName (departure s') \<noteq> None \<and> airportName (departure s') \<noteq> None
           \<and> cityName (arrival s') \<noteq> None \<and> airportName (arrival s') \<noteq> None)
        (booking_segments (bookingDetails v)) (view_segments v)"
proof -
  from booked_flight_Render [OF assms] obtain bookingId where
    id: "q_bookingId q = Some bookingId"
    and b: "up tr (GetFlightOrder bookingId) = OrderData (bookingDetails v)"
    and rel: "list_all2 (\<lambda>s s'. \<exists>tr0. s' = fst (booked_segment up s tr0))
          (booking_segments (bookingDetails v)) (view_segments v)"
    by blast
  have seg: "\<And>s s'. \<exists>tr0. s' = fst (booked_segment up s tr0) \<Longrightarrow>
      seg_id s' = seg_id s \<and> carrierCode s' = carrierCode s \<and> number s' = number s
      \<and> airlineName s' = airlineName s \<and> flightDuration s' = flightDuration s
      \<and> iataCode (departure s') = iataCode (departure s)
      \<and> iataCode (arrival s') = iataCode (arrival s)
      \<and> at (departure s') = at (departure s) \<and> at (arrival s') = at (arrival s)
      \<and> cityName (departure s') \<noteq> None \<and> airportName (departure s') \<noteq> None
      \<and> cityName (arrival s') \<noteq> None \<and> airportName (arrival s') \<noteq> None"
    using booked_segment_frame by (elim exE) simp
  from rel have "list_all2
        (\<lambda>s s'. seg_id s' = seg_id s \<and> carrierCode s' = carrierCode s \<and> number s' = number s
           \<and> airlineName s' = airlineName s \<and> flightDuration s' = flightDuration s
           \<and> iataCode (departure s') = iataCode (departure s)
           \<and> iataCode (arrival s') = iataCode (arrival s)
           \<and> at (departure s') = at (departure s) \<and> at (arrival s') = at (arrival s)
           \<and> cityName (departure s') \<noteq> None \<and> airportName (departure s') \<noteq> None
           \<and> cityName (arrival s') \<noteq> None \<and> airportName (arrival s') \<noteq> None)
        (booking_segments (bookingDetails v)) (view_segments v)"
    by (rule list_all2_mono) (rule seg)
  with id b show ?thesis
    by blast
qed

text \<open>
  C1, as stated, at a segment whose departure carries no terminal: after the
  per-segment loop of \<open>/flight-details\<close> the departure's terminal is \<open>N/A\<close>, so
  the field is not left as upstream sent it.
\<close>

theorem terminal_default_counterexample:
  "terminal (departure (example_segment ''BA'' ''JFK'' ''LHR'')) = None
   \<and> terminal (departure (fst (enrich_segment Date_iso example_upstream []
        (example_segment ''BA'' ''JFK'' ''LHR'') []))) = Some ''N/A''"
  by (simp add: example_segment_def example_endpoint_def enrich_segment_def enrich_endpoint_def
      js_or_str_def split: prod.splits)

text \<open>
  C1, amended. A response rendered by \<open>/flight-details\<close> carries the priced
  offer with its id and price unchanged and the same itineraries, each with the
  same segments in the same order; in every segment the id, carrier code,
  number, both \<open>iataCode\<close>s and both raw timestamps are unchanged, a terminal
  that is present and non-empty is unchanged and an absent or empty one is
  replaced by \<open>N/A\<close>, and \<open>cityName\<close>, \<open>airportName\<close>, \<open>airlineName\<close> (the
  value matched in the airline set resolved for the request) and
  \<open>flightDuration\<close> are added. The segment list built by \<open>/booked-flight\<close> has
  the segments of the booking's offers in document order, one for one; every
  property of a segment outside \<open>departure\<close> and \<open>arrival\<close> is unchanged, and
  \<open>departure\<close> and \<open>arrival\<close> keep \<open>iataCode\<close> and the raw timestamp and gain
  \<open>cityName\<close> and \<open>airportName\<close>; no airline name or duration is added there.
\<close>

theorem enrichment_frame:
  "(flight_details Date up q tr = (Render v, tr') \<longrightarrow>
     (\<exists>flightOffer offer0 rest airlines itins itins'.
        up (tr @ [GetFlightOffers (q_originCode q) (q_destinationCode q) (q_departureDate q)])
           (PostPricing flightOffer) = PricingData (offer0 # rest)
      \<and> offer_id (flight v) = offer_id offer0
      \<and> offer_price (flight v) = offer_price offer0
      \<and> itineraries offer0 = Some itins \<and> itineraries (flight v) = Some itins'
      \<and> list_all2
          (\<lambda>i i'. \<exists>segs segs'. segments i = Some segs \<and> segments i' = Some segs'
             \<and> list_all2
                 (\<lambda>s s'. seg_id s' = seg_id s \<and> carrierCode s' = carrierCode s \<and> number s' = number s
                    \<and> iataCode (departure s') = iataCode (departure s)
                    \<and> iataCode (arrival s') = iataCode (arrival s)
                    \<and> at (departure s') = at (departure s) \<and> at (arrival s') = at (arrival s)
                    \<and> (truthy (terminal (departure s)) \<longrightarrow>
                          terminal (departure s') = terminal (departure s))
                    \<and> (\<not> truthy (terminal (departure s)) \<longrightarrow> terminal (departure s') = Some ''N/A'')
                    \<and> (truthy (terminal (arrival s)) \<longrightarrow> terminal (arrival s') = terminal (arrival s))
                    \<and> (\<not> truthy (terminal (arrival s)) \<longrightarrow> terminal (arrival s') = Some ''N/A'')
                    \<and> cityName (departure s') \<noteq> None \<and> airportName (departure s') \<noteq> None
                    \<and> cityName (arrival s') \<noteq> None \<and> airportName (arrival s') \<noteq> None
                    \<and> airlineName s' = airlineName_of airlines (carrierCode s)
                  \<and> flightDuration s' \<noteq> None)
                 segs segs')
          itins itins'))
   \<and> (booked_flight up bq btr = (Render bv, btr') \<longrightarrow>
     (\<exists>bookingId. q_bookingId bq = Some bookingId
            \<and> up btr (GetFlightOrder bookingId) = OrderData (bookingDetails bv))
      \<and> list_all2
          (\<lambda>s s'. seg_id s' = seg_id s \<and> carrierCode s' = carrierCode s \<and> number s' = number s
             \<and> airlineName s' = airlineName s \<and> flightDuration s' = flightDuration s
             \<and> iataCode (departure s') = iataCode (departure s)
             \<and> iataCode (arrival s') = iataCode (arrival s)
             \<and> at (departure s') = at (departure s) \<and> at (arrival s') = at (arrival s)
             \<and> cityName (departure s') \<noteq> None \<and> airportName (departure s') \<noteq> None
             \<and> cityName (arrival s') \<noteq> None \<and> airportName (arrival s') \<noteq> None)
          (booking_segments (bookingDetails bv)) (view_segments bv))"
proof (rule conjI)
  show "flight_details Date up q tr = (Render v, tr') \<longrightarrow>
     (\<exists>flightOffer offer0 rest airlines itins itins'.
        up (tr @ [GetFlightOffers (q_originCode q) (q_destinationCode q) (q_departureDate q)])
           (PostPricing flightOffer) = PricingData (offer0 # rest)
      \<and> offer_id (flight v) = offer_id offer0
      \<and> offer_price (flight v) = offer_price offer0
      \<and> itineraries offer0 = Some itins \<and> itineraries (flight v) = Some itins'
      \<and> list_all2
          (\<lambda>i i'. \<exists>segs segs'. segments i = Some segs \<and> segments i' = Some segs'
             \<and> list_all2
                 (\<lambda>s s'. seg_id s' = seg_id s \<and> carrierCode s' = carrierCode s \<and> number s' = number s
                    \<and> iataCode (departure s') = iataCode (departure s)
                    \<and> iataCode (arrival s') = iataCode (arrival s)
                    \<and> at (departure s') = at (departure s) \<and> at (arrival s') = at (arrival s)
                    \<and> (truthy (terminal (departure s)) \<longrightarrow>
                          terminal (departure s') = terminal (departure s))
                    \<and> (\<not> truthy (terminal (departure s)) \<longrightarrow> terminal (departure s') = Some ''N/A'')
                    \<and> (truthy (terminal (arrival s)) \<longrightarrow> terminal (arrival s') = terminal (arrival s))
                    \<and> (\<not> truthy (terminal (arrival s)) \<longrightarrow> terminal (arrival s') = Some ''N/A'')
                    \<and> cityName (departure s') \<noteq> None \<and> airportName (departure s') \<noteq> None
                    \<and> cityName (arrival s') \<noteq> None \<and> airportName (arrival s') \<noteq> None
                    \<and> airlineName s' = airlineName_of airlines (carrierCode s)
                  \<and> flightDuration s' \<noteq> None)
                 segs segs')
          itins itins')"
    by (rule impI) (erule flight_details_frame)
next
  show "booked_flight up bq btr = (Render bv, btr') \<longrightarrow>
     (\<exists>bookingId. q_bookingId bq = Some bookingId
            \<and> up btr (GetFlightOrder bookingId) = OrderData (bookingDetails bv))
      \<and> list_all2
          (\<lambda>s s'. seg_id s' = seg_id s \<and> carrierCode s' = carrierCode s \<and> number s' = number s
             \<and> airlineName s' = airlineName s \<and> flightDuration s' = flightDuration s
             \<and> iataCode (departure s') = iataCode (departure s)
             \<and> iataCode (arrival s') = iataCode (arrival s)
             \<and> at (departure s') = at (departure s) \<and> at (arrival s') = at (arrival s)
             \<and> cityName (departure s') \<noteq> None \<and> airportName (departure s') \<noteq> None
             \<and> cityName (arrival s') \<noteq> None \<and> airportName (arrival s') \<noteq> None)
          (booking_segments (bookingDetails bv)) (view_segments bv)"
    by (rule impI) (erule booked_flight_frame)
qed

theorem enrichment_frame_witness:
  "(\<exists>v tr'. flight_details Date_iso example_upstream example_query [] = (Render v, tr')
      \<and> itineraries (flight v) \<noteq> None
      \<and> map iataCode (map departure (offer_segments (flight v))) = [''JFK'', ''LHR'']
      \<and> map terminal (map arrival (offer_segments (flight v))) = [Some ''5'', Some ''5''])
   \<and> (\<exists>v tr'. booked_flight example_upstream example_booked_query [] = (Render v, tr')
      \<and> length (view_segments v) = length (booking_segments (bookingDetails v))
      \<and> map iataCode (map departure (view_segments v)) = [''JFK'', ''LHR'']
      \<and> map at (map arrival (view_segments v)) = [''2024-01-01T12:30'', ''2024-01-01T12:30''])"
proof -
  have "\<exists>v tr'. flight_details Date_iso example_upstream example_query [] = (Render v, tr')
      \<and> map iataCode (map departure (offer_segments (flight v))) = [''JFK'', ''LHR'']
      \<and> map terminal (map arrival (offer_segments (flight v))) = [Some ''5'', Some ''5'']"
    by (simp add: flight_details_def example_upstream_def example_query_def axios_def truthy_def
        example_offer_def enrich_priced_def getAirlinesFromFlightOffers_def uniqueCarrierCodes_def
        first_carrierCode_def first_segment_def example_segment_def new_Set_def set_add_def
        try_airline_def airline_entry_def example_airline_def js_or_def enrich_segment_def
        getCityAndAirportName_def example_location_def js_or_str_def enrich_endpoint_def
        example_endpoint_def airlineName_of_def offer_segments_def)
  then obtain v tr' where
    run: "flight_details Date_iso example_upstream example_query [] = (Render v, tr')"
    and deps: "map iataCode (map departure (offer_segments (flight v))) = [''JFK'', ''LHR'']"
    and terms: "map terminal (map arrival (offer_segments (flight v))) = [Some ''5'', Some ''5'']"
    by (elim exE conjE)
  from enrichment_frame [of Date_iso example_upstream example_query "[]" v tr', THEN conjunct1] run
  obtain itins' where "itineraries (flight v) = Some itins'"
    by (elim impE exE conjE)
  then have "itineraries (flight v) \<noteq> None"
    by simp
  with run deps terms
  have a: "\<exists>v tr'. flight_details Date_iso example_upstream example_query [] = (Render v, tr')
      \<and> itineraries (flight v) \<noteq> None
      \<and> map iataCode (map departure (offer_segments (flight v))) = [''JFK'', ''LHR'']
      \<and> map terminal (map arrival (offer_segments (flight v))) = [Some ''5'', Some ''5'']"
    by (intro exI conjI)
  have "\<exists>v tr'. booked_flight example_upstream example_booked_query [] = (Render v, tr')
      \<and> map iataCode (map departure (view_segments v)) = [''JFK'', ''LHR'']
      \<and> map at (map arrival (view_segments v)) = [''2024-01-01T12:30'', ''2024-01-01T12:30'']"
    by (simp add: booked_flight_def example_booked_query_def truthy_def str_of_def axios_def
        example_upstream_def example_offer_def example_segment_def example_endpoint_def
        booked_segment_def rebuild_endpoint_def getCityAndAirportName_def example_location_def
        js_or_str_def)
  then obtain bv btr' where
    brun: "booked_flight example_upstream example_booked_query [] = (Render bv, btr')"
    and bdeps: "map iataCode (map departure (view_segments bv)) = [''JFK'', ''LHR'']"
    and bats: "map at (map arrival (view_segments bv)) = [''2024-01-01T12:30'', ''2024-01-01T12:30'']"
    by (elim exE conjE)
  from enrichment_frame [of _ example_upstream _ _ _ _ example_booked_query "[]" bv btr',
      THEN conjunct2] brun
  have "length (view_segments bv) = length (booking_segments (bookingDetails bv))"
    by (elim impE conjE) (simp_all add: list_all2_lengthD)
  with brun bdeps bats
  have b: "\<exists>v tr'. booked_flight example_upstream example_booked_query [] = (Render v, tr')
      \<and> length (view_segments v) = length (booking_segments (bookingDetails v))
      \<and> map iataCode (map departure (view_segments v)) = [''JFK'', ''LHR'']
      \<and> map at (map arrival (view_segments v)) = [''2024-01-01T12:30'', ''2024-01-01T12:30'']"
    by (intro exI conjI)
  from a b show ?thesis ..
qed

end
